(* ===== verification/Prelude.thy ===== *)
theory Prelude
  imports Complex_Main "HOL-Library.Word" "HOL-Library.Multiset"
begin

text \<open>
  Shared vocabulary of the LayerAndroid development
  (src/WebCore/platform/graphics/android/LayerAndroid.cpp).
  C++ \<open>float\<close> (\<open>SkScalar\<close>) values are modelled as exact reals: the
  development does not model IEEE rounding, only the conversions to integers
  that the source writes out (the cast \<open>(int) f\<close>, which truncates towards
  zero). Pointers to reference-counted \<open>SkPicture\<close> objects are addresses
  (\<open>pic_id\<close>) into an explicit store. The theorem collection
  \<open>geom_simps\<close> gathers the unfolding rules of the value-level Skia operations
  so that component proofs can evaluate them with \<open>simp add: geom_simps\<close>.
\<close>

named_theorems geom_simps "unfolding rules of the Skia value operations"

type_synonym scalar = real
type_synonym pic_id = nat
type_synonym alpha = "8 word"

text \<open>The C cast \<open>(int) f\<close> of a float: truncation towards zero.\<close>

definition trunc_int :: "real \<Rightarrow> int" where
  "trunc_int x = (if 0 \<le> x then \<lfloor>x\<rfloor> else \<lceil>x\<rceil>)"

text \<open>The references an optional pointer holds, as a multiset.\<close>

definition mset_opt :: "'a option \<Rightarrow> 'a multiset" where
  "mset_opt x = (case x of None \<Rightarrow> {#} | Some a \<Rightarrow> {#a#})"

lemma trunc_int_nonneg [simp]: "0 \<le> x \<Longrightarrow> trunc_int x = \<lfloor>x\<rfloor>"
  by (simp add: trunc_int_def)

lemma trunc_int_bounds:
  assumes "0 \<le> x" and "x \<le> of_int n"
  shows "0 \<le> trunc_int x \<and> trunc_int x \<le> n"
  using assms by (simp add: le_floor_iff floor_le_iff)

lemma trunc_int_of_int [simp]: "trunc_int (of_int n) = n"
  by (simp add: trunc_int_def)

text \<open>Multisets of references: the owners of a shared object, counted.\<close>

lemma count_sum_list_mset:
  "count (sum_list (map f xs)) p = sum_list (map (\<lambda>x. count (f x) p) xs)"
  by (induction xs) auto

lemma mset_opt_simps [simp]:
  "mset_opt None = {#}" "mset_opt (Some a) = {#a#}"
  by (simp_all add: mset_opt_def)

lemma count_mset_opt: "count (mset_opt x) p = (if x = Some p then 1 else 0)"
  by (cases x) auto

end
