(* ===== verification/Geometry.thy ===== *)
theory Geometry
  imports Prelude
begin

text \<open>
  The value types of the 2D graphics library that LayerAndroid.cpp computes
  with: \<open>SkPoint\<close>, \<open>SkSize\<close>, \<open>SkRect\<close>, \<open>SkLength\<close> and the affine part of
  \<open>SkMatrix\<close>. Their code is not part of this repository (it belongs to the
  graphics library), so each definition here follows the specification's
  description of the interface (spec sections 3.1 and 6.1): the matrix
  operations compose with column-vector semantics, \<open>pre\<close> operations on
  the right and \<open>post\<close> operations on the left. The lemmas show how the
  composed matrices act on points.
\<close>

section \<open>Points, sizes and rectangles\<close>

record point =
  px :: scalar
  py :: scalar

record fsize =
  fw :: scalar
  fh :: scalar

record rect =
  r_left :: scalar
  r_top :: scalar
  r_right :: scalar
  r_bottom :: scalar

definition rect_width :: "rect \<Rightarrow> scalar" where
  "rect_width r = r_right r - r_left r"

definition rect_height :: "rect \<Rightarrow> scalar" where
  "rect_height r = r_bottom r - r_top r"

section \<open>Lengths (SkLength)\<close>

text \<open>
  A length is undefined, a fixed number of pixels, or a percentage of a
  reference dimension (spec 3.1): \<open>resolve\<close> gives \<open>x\<close> for a fixed length
  and \<open>p \<times> reference\<close> for a percentage.
\<close>

datatype length_type = Undefined | Fixed | Percent

record sklength =
  len_type :: length_type
  len_value :: scalar

definition undefined_length :: sklength where
  "undefined_length = \<lparr>len_type = Undefined, len_value = 0\<rparr>"

definition len_defined :: "sklength \<Rightarrow> bool" where
  "len_defined l \<longleftrightarrow> len_type l \<noteq> Undefined"

definition calc_float_value :: "sklength \<Rightarrow> scalar \<Rightarrow> scalar" where
  "calc_float_value l ref =
     (case len_type l of Percent \<Rightarrow> len_value l * ref | _ \<Rightarrow> len_value l)"

section \<open>Affine matrices (SkMatrix)\<close>

text \<open>
  The matrix
  \<open>[[m_sx, m_kx, m_tx], [m_ky, m_sy, m_ty], [0, 0, 1]]\<close>
  maps \<open>(x, y)\<close> to \<open>(m_sx x + m_kx y + m_tx, m_ky x + m_sy y + m_ty)\<close>.
\<close>

record matrix =
  m_sx :: real
  m_kx :: real
  m_tx :: real
  m_ky :: real
  m_sy :: real
  m_ty :: real

definition identity_m :: matrix where
  "identity_m = \<lparr>m_sx = 1, m_kx = 0, m_tx = 0, m_ky = 0, m_sy = 1, m_ty = 0\<rparr>"

text \<open>\<open>mat_mul a b\<close> is the product \<open>a \<cdot> b\<close>: first \<open>b\<close>, then \<open>a\<close>.\<close>

definition mat_mul :: "matrix \<Rightarrow> matrix \<Rightarrow> matrix" where
  "mat_mul a b =
     \<lparr>m_sx = m_sx a * m_sx b + m_kx a * m_ky b,
      m_kx = m_sx a * m_kx b + m_kx a * m_sy b,
      m_tx = m_sx a * m_tx b + m_kx a * m_ty b + m_tx a,
      m_ky = m_ky a * m_sx b + m_sy a * m_ky b,
      m_sy = m_ky a * m_kx b + m_sy a * m_sy b,
      m_ty = m_ky a * m_tx b + m_sy a * m_ty b + m_ty a\<rparr>"

definition translate_m :: "real \<Rightarrow> real \<Rightarrow> matrix" where
  "translate_m dx dy = \<lparr>m_sx = 1, m_kx = 0, m_tx = dx, m_ky = 0, m_sy = 1, m_ty = dy\<rparr>"

definition scale_m :: "real \<Rightarrow> real \<Rightarrow> matrix" where
  "scale_m sx sy = \<lparr>m_sx = sx, m_kx = 0, m_tx = 0, m_ky = 0, m_sy = sy, m_ty = 0\<rparr>"

text \<open>Rotation by an angle in degrees, as \<open>SkMatrix::setRotate\<close>.\<close>

definition rotate_m :: "real \<Rightarrow> matrix" where
  "rotate_m deg =
     (let r = deg * pi / 180
      in \<lparr>m_sx = cos r, m_kx = - sin r, m_tx = 0, m_ky = sin r, m_sy = cos r, m_ty = 0\<rparr>)"

definition pre_translate :: "matrix \<Rightarrow> real \<Rightarrow> real \<Rightarrow> matrix" where
  "pre_translate m dx dy = mat_mul m (translate_m dx dy)"

definition post_translate :: "matrix \<Rightarrow> real \<Rightarrow> real \<Rightarrow> matrix" where
  "post_translate m dx dy = mat_mul (translate_m dx dy) m"

definition pre_scale :: "matrix \<Rightarrow> real \<Rightarrow> real \<Rightarrow> matrix" where
  "pre_scale m sx sy = mat_mul m (scale_m sx sy)"

definition pre_rotate :: "matrix \<Rightarrow> real \<Rightarrow> matrix" where
  "pre_rotate m deg = mat_mul m (rotate_m deg)"

definition map_point :: "matrix \<Rightarrow> point \<Rightarrow> point" where
  "map_point m p =
     \<lparr>px = m_sx m * px p + m_kx m * py p + m_tx m,
      py = m_ky m * px p + m_sy m * py p + m_ty m\<rparr>"

text \<open>A matrix is a pure translation when its linear part is the identity.\<close>

definition is_translation :: "matrix \<Rightarrow> real \<Rightarrow> real \<Rightarrow> bool" where
  "is_translation m dx dy \<longleftrightarrow> m = translate_m dx dy"

declare identity_m_def [geom_simps] mat_mul_def [geom_simps] translate_m_def [geom_simps]
  scale_m_def [geom_simps] pre_translate_def [geom_simps] post_translate_def [geom_simps]
  pre_scale_def [geom_simps] map_point_def [geom_simps] pre_rotate_def [geom_simps]

section \<open>How the composed matrices act\<close>

lemma map_point_mat_mul [simp]:
  "map_point (mat_mul a b) p = map_point a (map_point b p)"
  by (simp add: geom_simps algebra_simps)

lemma mat_mul_assoc: "mat_mul (mat_mul a b) c = mat_mul a (mat_mul b c)"
  by (simp add: geom_simps algebra_simps)

lemma mat_mul_identity [simp]:
  "mat_mul identity_m m = m" "mat_mul m identity_m = m"
  by (simp_all add: geom_simps)

lemma translate_m_mul [simp]:
  "mat_mul (translate_m a b) (translate_m c d) = translate_m (a + c) (b + d)"
  by (simp add: geom_simps algebra_simps)

lemma translate_m_zero [simp]: "translate_m 0 0 = identity_m"
  by (simp add: geom_simps)

lemma map_point_translate [simp]:
  "map_point (translate_m dx dy) p = \<lparr>px = px p + dx, py = py p + dy\<rparr>"
  by (simp add: geom_simps)

lemma rotate_m_zero [simp]: "rotate_m 0 = identity_m"
  by (simp add: rotate_m_def identity_m_def)

end
