(* ===== verification/Picture.thy ===== *)
theory Picture
  imports Geometry
begin

text \<open>
  The content recordings (\<open>SkPicture\<close>) that layers share. LayerAndroid.cpp
  holds a raw pointer \<open>m_recordingPicture\<close> and manages its lifetime with the
  graphics library's reference counting (\<open>SkSafeRef\<close>, \<open>safeUnref\<close>,
  \<open>new SkPicture()\<close>). The model is an explicit store from addresses to
  pictures with a reference count; a layer holds an address option (\<open>None\<close>
  is the null pointer). The store is a record that the global state of the
  development extends, so the operations here are polymorphic in the
  extension. The library code is not in this repository: the operations
  follow the specification (sections 4.3 and 6.2).

  The invariant \<open>store_ok R st\<close> says that the multiset \<open>R\<close> of references held
  by layers is exactly what the reference counts record: every referenced
  picture is alive (no dangling pointer), every live picture is referenced
  (no leak), and allocation addresses are fresh.
\<close>

section \<open>Pictures and the store\<close>

text \<open>A recorded drawing command: a rectangle filled with a paint of the given alpha.\<close>

datatype prim = DrawRect rect alpha

record picture =
  pic_width :: int
  pic_height :: int
  pic_ops :: "prim list"
  pic_refcnt :: nat

record store =
  pics :: "pic_id \<Rightarrow> picture option"
  next_pic :: pic_id

text \<open>\<open>new SkPicture()\<close>: an empty recording of size 0 x 0, owned once.\<close>

definition empty_picture :: picture where
  "empty_picture = \<lparr>pic_width = 0, pic_height = 0, pic_ops = [], pic_refcnt = 1\<rparr>"

definition new_picture :: "'a store_scheme \<Rightarrow> pic_id \<times> 'a store_scheme" where
  "new_picture st =
     (next_pic st,
      st\<lparr>pics := (pics st)(next_pic st \<mapsto> empty_picture), next_pic := Suc (next_pic st)\<rparr>)"

text \<open>\<open>SkSafeRef(p)\<close>: increment the count of a non-null picture.\<close>

definition safe_ref :: "pic_id option \<Rightarrow> 'a store_scheme \<Rightarrow> 'a store_scheme" where
  "safe_ref x st =
     (case x of None \<Rightarrow> st
      | Some p \<Rightarrow> st\<lparr>pics := (pics st)(p := map_option
                     (\<lambda>pic. pic\<lparr>pic_refcnt := Suc (pic_refcnt pic)\<rparr>) (pics st p))\<rparr>)"

text \<open>\<open>p->safeUnref()\<close>: decrement a non-null picture's count, freeing it at zero.\<close>

definition safe_unref :: "pic_id option \<Rightarrow> 'a store_scheme \<Rightarrow> 'a store_scheme" where
  "safe_unref x st =
     (case x of None \<Rightarrow> st
      | Some p \<Rightarrow>
          (case pics st p of None \<Rightarrow> st
           | Some pic \<Rightarrow>
               if pic_refcnt pic \<le> 1 then st\<lparr>pics := (pics st)(p := None)\<rparr>
               else st\<lparr>pics := (pics st)(p \<mapsto> pic\<lparr>pic_refcnt := pic_refcnt pic - 1\<rparr>)\<rparr>))"

text \<open>
  \<open>*p\<close>, \<open>p->width()\<close> and \<open>p->height()\<close>. Reading a freed picture is undefined
  behaviour in C++; the model then reads an unspecified value, and the
  invariant below shows that no layer's recording is ever freed.
\<close>

definition deref :: "'a store_scheme \<Rightarrow> pic_id \<Rightarrow> picture" where
  "deref st p = the (pics st p)"

definition pic_w :: "'a store_scheme \<Rightarrow> pic_id \<Rightarrow> int" where
  "pic_w st p = pic_width (deref st p)"

definition pic_h :: "'a store_scheme \<Rightarrow> pic_id \<Rightarrow> int" where
  "pic_h st p = pic_height (deref st p)"

text \<open>
  The layout engine records into a picture it obtained from \<open>recordContext\<close>
  (\<open>beginRecording(w, h)\<close>, drawing, \<open>endRecording()\<close>): the picture's size
  and commands are replaced, its reference count is not touched.
\<close>

definition engine_record ::
  "pic_id \<Rightarrow> int \<Rightarrow> int \<Rightarrow> prim list \<Rightarrow> 'a store_scheme \<Rightarrow> 'a store_scheme" where
  "engine_record p w h ops st =
     st\<lparr>pics := (pics st)(p := map_option
          (\<lambda>pic. pic\<lparr>pic_width := w, pic_height := h, pic_ops := ops\<rparr>) (pics st p))\<rparr>"

section \<open>The reference-count invariant\<close>

definition store_ok :: "pic_id multiset \<Rightarrow> 'a store_scheme \<Rightarrow> bool" where
  "store_ok R st \<longleftrightarrow>
     (\<forall>p. count R p = (case pics st p of None \<Rightarrow> 0 | Some pic \<Rightarrow> pic_refcnt pic)) \<and>
     (\<forall>p pic. pics st p = Some pic \<longrightarrow> 0 < pic_refcnt pic \<and> p < next_pic st)"

lemma store_okI:
  assumes "\<And>q. count R q = (case pics st q of None \<Rightarrow> 0 | Some pic \<Rightarrow> pic_refcnt pic)"
    and "\<And>q pic. pics st q = Some pic \<Longrightarrow> 0 < pic_refcnt pic \<and> q < next_pic st"
  shows "store_ok R st"
  using assms by (simp add: store_ok_def)

lemma store_ok_count:
  "store_ok R st \<Longrightarrow> count R q = (case pics st q of None \<Rightarrow> 0 | Some pic \<Rightarrow> pic_refcnt pic)"
  by (simp add: store_ok_def)

lemma store_ok_live:
  "store_ok R st \<Longrightarrow> pics st q = Some pic \<Longrightarrow> 0 < pic_refcnt pic \<and> q < next_pic st"
  by (simp add: store_ok_def)

lemma store_ok_alive:
  assumes "store_ok R st" and "p \<in># R"
  shows "\<exists>pic. pics st p = Some pic \<and> pic_refcnt pic = count R p"
  using store_ok_count [OF assms(1), of p] assms(2)
  by (cases "pics st p") (auto simp flip: count_greater_zero_iff)

lemma store_ok_fresh:
  assumes "store_ok R st"
  shows "pics st (next_pic st) = None" and "next_pic st \<notin># R"
proof -
  show none: "pics st (next_pic st) = None"
    using store_ok_live [OF assms, of "next_pic st"] by (cases "pics st (next_pic st)") auto
  from store_ok_count [OF assms, of "next_pic st"] none show "next_pic st \<notin># R"
    by (simp add: not_in_iff)
qed

lemma store_ok_new_picture:
  assumes "store_ok R st" and "new_picture st = (p, st')"
  shows "store_ok (R + {#p#}) st'" and "p \<notin># R" and "pics st' p = Some empty_picture"
proof -
  have p: "p = next_pic st" and st': "st' = st\<lparr>pics := (pics st)(p \<mapsto> empty_picture),
      next_pic := Suc (next_pic st)\<rparr>"
    using assms(2) by (auto simp: new_picture_def)
  from store_ok_fresh [OF assms(1)] p show "p \<notin># R" by simp
  show "pics st' p = Some empty_picture" by (simp add: st')
  show "store_ok (R + {#p#}) st'"
  proof (rule store_okI)
    fix q
    show "count (R + {#p#}) q = (case pics st' q of None \<Rightarrow> 0 | Some pic \<Rightarrow> pic_refcnt pic)"
      using store_ok_count [OF assms(1), of q] store_ok_fresh [OF assms(1)] p
      by (auto simp: st' empty_picture_def not_in_iff)
  next
    fix q pic
    assume "pics st' q = Some pic"
    then show "0 < pic_refcnt pic \<and> q < next_pic st'"
      using store_ok_live [OF assms(1), of q] p
      by (auto simp: st' empty_picture_def split: if_splits)
  qed
qed

lemma store_ok_safe_unref:
  assumes "store_ok (R + mset_opt x) st"
  shows "store_ok R (safe_unref x st)"
proof (cases x)
  case None
  with assms show ?thesis by (simp add: safe_unref_def)
next
  case (Some p)
  from store_ok_alive [OF assms, of p] Some obtain pic where
    pic: "pics st p = Some pic" and cnt: "pic_refcnt pic = count R p + 1"
    by auto
  show ?thesis
  proof (rule store_okI)
    fix q
    show "count R q = (case pics (safe_unref x st) q of None \<Rightarrow> 0 | Some pic \<Rightarrow> pic_refcnt pic)"
      using store_ok_count [OF assms, of q] Some pic cnt
      by (auto simp: safe_unref_def)
  next
    fix q pic'
    assume "pics (safe_unref x st) q = Some pic'"
    then show "0 < pic_refcnt pic' \<and> q < next_pic (safe_unref x st)"
      using store_ok_live [OF assms, of q] Some pic cnt
      by (auto simp: safe_unref_def split: if_splits simp flip: count_greater_zero_iff)
  qed
qed

lemma store_ok_safe_ref:
  assumes "store_ok R st" and "set_option x \<subseteq> set_mset R"
  shows "store_ok (R + mset_opt x) (safe_ref x st)"
proof (cases x)
  case None
  with assms show ?thesis by (simp add: safe_ref_def)
next
  case (Some p)
  from assms Some obtain pic where pic: "pics st p = Some pic"
    using store_ok_alive by fastforce
  show ?thesis
  proof (rule store_okI)
    fix q
    show "count (R + mset_opt x) q =
        (case pics (safe_ref x st) q of None \<Rightarrow> 0 | Some pic \<Rightarrow> pic_refcnt pic)"
      using store_ok_count [OF assms(1), of q] Some pic by (auto simp: safe_ref_def)
  next
    fix q pic'
    assume "pics (safe_ref x st) q = Some pic'"
    then show "0 < pic_refcnt pic' \<and> q < next_pic (safe_ref x st)"
      using store_ok_live [OF assms(1), of q] Some pic
      by (auto simp: safe_ref_def split: if_splits)
  qed
qed

lemma store_ok_engine_record:
  "store_ok R st \<Longrightarrow> store_ok R (engine_record p w h ops st)"
  by (auto simp: store_ok_def engine_record_def split: option.splits)

lemma store_ok_next_pic_mono:
  "next_pic (safe_unref x st) = next_pic st" "next_pic (safe_ref x st) = next_pic st"
  "next_pic (engine_record p w h ops st) = next_pic st"
  by (auto simp: safe_unref_def safe_ref_def engine_record_def split: option.splits)

end
