(* ===== verification/Canvas.thy ===== *)
theory Canvas
  imports Picture
begin

text \<open>
  The drawing target of the paint traversal. \<open>OpacityDrawFilter\<close>
  (LayerAndroid.cpp lines 28-44) is code of this repository; the canvas
  itself (\<open>SkCanvas\<close>: \<open>save\<close>, \<open>restoreToCount\<close>, \<open>clipRect\<close>,
  \<open>translate\<close>, \<open>concat\<close>, \<open>setDrawFilter\<close>, and a picture's replay onto it)
  belongs to the graphics library and is modelled from the interface the
  specification describes (sections 4.1 and 6.1). The canvas is a capturing
  canvas: its current state (matrix, clip stack, draw filter), the stack of
  saved states, and the list of everything drawn, each draw with the state
  in effect. The lemmas show that \<open>save\<close> followed by \<open>restoreToCount\<close>
  restores the state, and that the opacity filter's \<open>filter\<close> and
  \<open>restore\<close> are inverse on a paint.
\<close>

section \<open>The opacity draw filter (LayerAndroid.cpp 28-44)\<close>

text \<open>
  A paint, reduced to the channel the filter touches. \<open>SkPaint::setAlpha\<close>
  takes an unsigned value and keeps its low 8 bits in the colour, which is
  the conversion \<open>word_of_int\<close> to an 8-bit word.
\<close>

record skpaint =
  paint_alpha :: alpha

record opacity_filter =
  of_opacity :: int
  of_previous :: alpha

text \<open>The constructor stores the opacity; \<open>m_previousOpacity\<close> is left uninitialised.\<close>

definition opacity_filter_new :: "int \<Rightarrow> opacity_filter" where
  "opacity_filter_new opacity = \<lparr>of_opacity = opacity, of_previous = undefined\<rparr>"

definition odf_filter :: "opacity_filter \<Rightarrow> skpaint \<Rightarrow> opacity_filter \<times> skpaint \<times> bool" where
  "odf_filter f paint =
     (let f' = f\<lparr>of_previous := paint_alpha paint\<rparr>;
          paint' = paint\<lparr>paint_alpha := word_of_int (of_opacity f')\<rparr>
      in (f', paint', True))"

definition odf_restore :: "opacity_filter \<Rightarrow> skpaint \<Rightarrow> skpaint" where
  "odf_restore f paint = paint\<lparr>paint_alpha := of_previous f\<rparr>"

section \<open>Canvas state\<close>

record cstate =
  cs_matrix :: matrix
  cs_clips :: "(matrix \<times> rect) list"
  cs_filter :: "opacity_filter option"

text \<open>One replayed command as the canvas drew it: shape, alpha after the filter, matrix, clips.\<close>

datatype drawn = Drawn rect alpha matrix "(matrix \<times> rect) list"

record canvas =
  c_state :: cstate
  c_saved :: "cstate list"
  c_out :: "drawn list"

definition initial_cstate :: cstate where
  "initial_cstate = \<lparr>cs_matrix = identity_m, cs_clips = [], cs_filter = None\<rparr>"

definition new_canvas :: canvas where
  "new_canvas = \<lparr>c_state = initial_cstate, c_saved = [], c_out = []\<rparr>"

section \<open>Canvas operations\<close>

text \<open>\<open>getSaveCount()\<close> is one more than the number of saved states.\<close>

definition save_count :: "canvas \<Rightarrow> nat" where
  "save_count c = Suc (length (c_saved c))"

text \<open>\<open>save()\<close> returns the save count before the save.\<close>

definition save :: "canvas \<Rightarrow> nat \<times> canvas" where
  "save c = (save_count c, c\<lparr>c_saved := c_state c # c_saved c\<rparr>)"

definition restore :: "canvas \<Rightarrow> canvas" where
  "restore c = (case c_saved c of [] \<Rightarrow> c | s # ss \<Rightarrow> c\<lparr>c_state := s, c_saved := ss\<rparr>)"

text \<open>\<open>restoreToCount(n)\<close>: restore until the save count is \<open>max n 1\<close>.\<close>

definition restore_to_count :: "nat \<Rightarrow> canvas \<Rightarrow> canvas" where
  "restore_to_count n c = (restore ^^ (save_count c - max n 1)) c"

definition clip_rect :: "rect \<Rightarrow> canvas \<Rightarrow> canvas" where
  "clip_rect r c =
     c\<lparr>c_state := (c_state c)\<lparr>cs_clips := (cs_matrix (c_state c), r) # cs_clips (c_state c)\<rparr>\<rparr>"

definition translate :: "real \<Rightarrow> real \<Rightarrow> canvas \<Rightarrow> canvas" where
  "translate dx dy c =
     c\<lparr>c_state := (c_state c)\<lparr>cs_matrix := pre_translate (cs_matrix (c_state c)) dx dy\<rparr>\<rparr>"

definition concat :: "matrix \<Rightarrow> canvas \<Rightarrow> canvas" where
  "concat m c = c\<lparr>c_state := (c_state c)\<lparr>cs_matrix := mat_mul (cs_matrix (c_state c)) m\<rparr>\<rparr>"

definition set_draw_filter :: "opacity_filter option \<Rightarrow> canvas \<Rightarrow> canvas" where
  "set_draw_filter f c = c\<lparr>c_state := (c_state c)\<lparr>cs_filter := f\<rparr>\<rparr>"

text \<open>
  Drawing one recorded command: the installed filter (if any) rewrites the
  paint before the draw and restores it after (spec 4.1). The filter object
  keeps the alpha it saved; the recorded paint itself is given back its alpha
  by \<open>odf_restore\<close> (lemma \<open>odf_filter_restore\<close>), so the picture's
  commands are not changed by a replay.
\<close>

fun draw_prim :: "canvas \<Rightarrow> prim \<Rightarrow> canvas" where
  "draw_prim c (DrawRect r a) =
     (let s = c_state c in
      case cs_filter s of
        None \<Rightarrow> c\<lparr>c_out := c_out c @ [Drawn r a (cs_matrix s) (cs_clips s)]\<rparr>
      | Some f \<Rightarrow>
          (let (f', paint', _) = odf_filter f \<lparr>paint_alpha = a\<rparr>
           in c\<lparr>c_state := s\<lparr>cs_filter := Some f'\<rparr>,
                c_out := c_out c @ [Drawn r (paint_alpha paint') (cs_matrix s) (cs_clips s)]\<rparr>))"

text \<open>\<open>picture->draw(canvas)\<close>: replay every recorded command in order.\<close>

definition draw_picture :: "picture \<Rightarrow> canvas \<Rightarrow> canvas" where
  "draw_picture pic c = foldl draw_prim c (pic_ops pic)"

text \<open>
  One recorded command as drawn under a matrix, a clip stack and, when a
  filter is installed, the filter's opacity.
\<close>

fun replay_prim :: "matrix \<Rightarrow> (matrix \<times> rect) list \<Rightarrow> int option \<Rightarrow> prim \<Rightarrow> drawn" where
  "replay_prim m cl fo (DrawRect r a) =
     Drawn r (case fo of None \<Rightarrow> a | Some k \<Rightarrow> word_of_int k) m cl"

definition filter_opacity :: "cstate \<Rightarrow> int option" where
  "filter_opacity s = map_option of_opacity (cs_filter s)"

section \<open>Save and restore\<close>

lemma restore_to_count_save:
  "restore_to_count (save_count c) (c'\<lparr>c_saved := c_state c # c_saved c\<rparr>) =
     c'\<lparr>c_state := c_state c, c_saved := c_saved c\<rparr>"
  by (simp add: restore_to_count_def save_count_def restore_def)

lemma restore_to_count_saved:
  assumes "c_saved c' = c_state c # c_saved c"
  shows "restore_to_count (save_count c) c' = c'\<lparr>c_state := c_state c, c_saved := c_saved c\<rparr>"
proof -
  have "c' = c'\<lparr>c_saved := c_state c # c_saved c\<rparr>" using assms by simp
  then show ?thesis by (metis restore_to_count_save)
qed

text \<open>Operations that touch only the current state and the output keep the save stack.\<close>

lemma c_saved_ops [simp]:
  "c_saved (clip_rect r c) = c_saved c" "c_saved (translate dx dy c) = c_saved c"
  "c_saved (concat m c) = c_saved c" "c_saved (set_draw_filter f c) = c_saved c"
  by (simp_all add: clip_rect_def translate_def concat_def set_draw_filter_def)

lemma c_saved_draw_prim [simp]: "c_saved (draw_prim c x) = c_saved c"
  by (cases x) (simp add: Let_def split: option.splits prod.splits)

lemma c_saved_draw_picture [simp]: "c_saved (draw_picture pic c) = c_saved c"
proof -
  have "\<And>c. c_saved (foldl draw_prim c xs) = c_saved c" for xs
    by (induction xs) simp_all
  then show ?thesis by (simp add: draw_picture_def)
qed

text \<open>The output only grows: drawing appends.\<close>

lemma c_out_draw_picture_prefix:
  "\<exists>ys. c_out (draw_picture pic c) = c_out c @ ys"
proof -
  have "\<And>c. \<exists>ys. c_out (foldl draw_prim c xs) = c_out c @ ys" for xs
  proof (induction xs)
    case Nil
    then show ?case by simp
  next
    case (Cons x xs)
    obtain r a where x: "x = DrawRect r a" by (cases x)
    obtain ys where "c_out (foldl draw_prim (draw_prim c x) xs) = c_out (draw_prim c x) @ ys"
      using Cons by blast
    then show ?case by (auto simp: x Let_def split: option.splits prod.splits)
  qed
  then show ?thesis by (simp add: draw_picture_def)
qed

section \<open>The opacity filter\<close>

text \<open>
  C13: \<open>OpacityDrawFilter::restore\<close> undoes \<open>filter\<close>: after the filter has
  forced a paint's alpha and the draw, restoring gives back the paint as it
  was recorded.
\<close>

lemma odf_filter_restore:
  "odf_filter f p = (f', p', b) \<Longrightarrow> odf_restore f' p' = p"
  by (auto simp: odf_filter_def odf_restore_def Let_def)

section \<open>What replaying a picture draws\<close>

lemma draw_prim_effect:
  "c_out (draw_prim c x) =
     c_out c @ [replay_prim (cs_matrix (c_state c)) (cs_clips (c_state c)) (filter_opacity (c_state c)) x]"
  "cs_matrix (c_state (draw_prim c x)) = cs_matrix (c_state c)"
  "cs_clips (c_state (draw_prim c x)) = cs_clips (c_state c)"
  "filter_opacity (c_state (draw_prim c x)) = filter_opacity (c_state c)"
  by (cases x; simp add: Let_def filter_opacity_def odf_filter_def split: option.splits)+

lemma draw_picture_effect:
  "c_out (draw_picture pic c) =
     c_out c @ map (replay_prim (cs_matrix (c_state c)) (cs_clips (c_state c))
                     (filter_opacity (c_state c))) (pic_ops pic)"
proof -
  have "c_out (foldl draw_prim c xs) =
      c_out c @ map (replay_prim (cs_matrix (c_state c)) (cs_clips (c_state c))
                      (filter_opacity (c_state c))) xs" for xs
    by (induction xs arbitrary: c) (simp_all add: draw_prim_effect)
  then show ?thesis by (simp add: draw_picture_def)
qed

lemma c_out_ops [simp]:
  "c_out (snd (save c)) = c_out c" "c_out (clip_rect r c) = c_out c"
  "c_out (translate dx dy c) = c_out c" "c_out (concat m c) = c_out c"
  "c_out (set_draw_filter f c) = c_out c" "c_out (restore_to_count n c) = c_out c"
proof -
  have "c_out ((restore ^^ k) c) = c_out c" for k
    by (induction k) (simp_all add: restore_def split: list.splits)
  then show "c_out (restore_to_count n c) = c_out c" by (simp add: restore_to_count_def)
qed (simp_all add: save_def clip_rect_def translate_def concat_def set_draw_filter_def)

lemma c_state_ops [simp]:
  "c_state (snd (save c)) = c_state c"
  "cs_matrix (c_state (clip_rect r c)) = cs_matrix (c_state c)"
  "cs_clips (c_state (clip_rect r c)) = (cs_matrix (c_state c), r) # cs_clips (c_state c)"
  "filter_opacity (c_state (clip_rect r c)) = filter_opacity (c_state c)"
  "cs_matrix (c_state (concat m c)) = mat_mul (cs_matrix (c_state c)) m"
  "cs_clips (c_state (concat m c)) = cs_clips (c_state c)"
  "filter_opacity (c_state (concat m c)) = filter_opacity (c_state c)"
  "cs_matrix (c_state (set_draw_filter f c)) = cs_matrix (c_state c)"
  "cs_clips (c_state (set_draw_filter f c)) = cs_clips (c_state c)"
  "filter_opacity (c_state (set_draw_filter f c)) = map_option of_opacity f"
  "cs_matrix (c_state (translate dx dy c)) = pre_translate (cs_matrix (c_state c)) dx dy"
  "cs_clips (c_state (translate dx dy c)) = cs_clips (c_state c)"
  "filter_opacity (c_state (translate dx dy c)) = filter_opacity (c_state c)"
  by (simp_all add: save_def clip_rect_def concat_def set_draw_filter_def translate_def
      filter_opacity_def)

end
