(* ===== verification/Layer.thy ===== *)
theory Layer
  imports Canvas
begin

text \<open>
  The layer node (LayerAndroid.cpp). A \<open>LayerAndroid\<close> is an \<open>SkLayer\<close>
  (the base class of the graphics library, holding the geometry, opacity,
  fixed-position lengths and the children) with the fields LayerAndroid.cpp
  adds: root flag, content flags, clip flag, the shared recording and the map
  of animations. The model keeps the two parts as two records, \<open>sklayer\<close>
  and \<open>lprops\<close>, and the tree as the datatype \<open>layer\<close>, whose children list
  is the exclusively owned child list of the code. The process-wide counters
  of the file (\<open>gDebugLayerAndroidInstances\<close>, \<open>gDebugNbAnims\<close>,
  \<open>gDebugChildLevel\<close>) and the picture store form the global state \<open>env\<close>.
  Every method that mutates a layer is a function from the old layer (and
  state) to the new one.
\<close>

section \<open>State\<close>

text \<open>The \<open>SkLayer\<close> base-class state (spec 3.2); modelled from the specification.\<close>

record sklayer =
  l_size :: fsize
  l_position :: point
  l_translation :: point
  l_anchor :: point
  l_scale :: point
  l_do_rotation :: bool
  l_angle :: scalar
  l_opacity :: scalar
  l_is_fixed :: bool
  l_fixed_left :: sklength
  l_fixed_top :: sklength
  l_fixed_right :: sklength
  l_fixed_bottom :: sklength

text \<open>
  An animation handle (\<open>AndroidAnimation\<close>, spec 4.2): its name, the time of
  its first evaluation, and the curve that, given the elapsed time, updates
  the animatable properties of the layer and reports whether it is still
  running. The handle class is not in this repository.
\<close>

record anim =
  anim_name :: string
  anim_begin :: "real option"
  anim_curve :: "real \<Rightarrow> sklayer \<Rightarrow> sklayer \<times> bool"

text \<open>\<open>anim->evaluate(layer, time)\<close>: the first evaluation fixes the start time.\<close>

definition anim_evaluate :: "anim \<Rightarrow> sklayer \<Rightarrow> real \<Rightarrow> anim \<times> sklayer \<times> bool" where
  "anim_evaluate a l time =
     (let start = (case anim_begin a of None \<Rightarrow> time | Some t \<Rightarrow> t);
          (l', running) = anim_curve a (time - start) l
      in (a\<lparr>anim_begin := Some start\<rparr>, l', running))"

text \<open>\<open>anim->copy()\<close>: a new handle with the same name, start and curve.\<close>

definition anim_copy :: "anim \<Rightarrow> anim" where
  "anim_copy a = \<lparr>anim_name = anim_name a, anim_begin = anim_begin a, anim_curve = anim_curve a\<rparr>"

text \<open>
  \<open>KeyframesMap\<close> is a WTF \<open>HashMap<String, RefPtr<AndroidAnimation>>\<close>. It is
  modelled as an association list with distinct keys whose order is the
  iteration order. \<open>HashMap::add\<close> inserts only when the key is absent: an
  existing entry is kept, not replaced.
\<close>

type_synonym keyframes = "(string \<times> anim) list"

definition hm_add :: "string \<Rightarrow> anim \<Rightarrow> keyframes \<Rightarrow> keyframes" where
  "hm_add k v m = (if k \<in> fst ` set m then m else m @ [(k, v)])"

definition hm_remove :: "string \<Rightarrow> keyframes \<Rightarrow> keyframes" where
  "hm_remove k m = filter (\<lambda>(k', _). k' \<noteq> k) m"

text \<open>The fields LayerAndroid adds to SkLayer (LayerAndroid.cpp 46-52, 154-157).\<close>

record lprops =
  is_root :: bool
  have_contents :: bool
  draws_content :: bool
  have_image :: bool
  have_clip :: bool
  recording :: "pic_id option"
  animations :: keyframes
  bg_color :: "32 word"
  bg_color_set :: bool

datatype layer = Layer (l_base: sklayer) (l_own: lprops) (l_kids: "layer list")

text \<open>Process-wide state: the picture store and the file's debug counters.\<close>

record env = store +
  instances :: int
  nb_anims :: int
  child_level :: int

section \<open>Construction (LayerAndroid.cpp 46-55)\<close>

text \<open>The \<open>SkLayer()\<close> defaults (spec 4.4): opacity 1, scale (1, 1), size (0, 0).\<close>

definition default_sklayer :: sklayer where
  "default_sklayer =
     \<lparr>l_size = \<lparr>fw = 0, fh = 0\<rparr>, l_position = \<lparr>px = 0, py = 0\<rparr>,
      l_translation = \<lparr>px = 0, py = 0\<rparr>, l_anchor = \<lparr>px = 0, py = 0\<rparr>,
      l_scale = \<lparr>px = 1, py = 1\<rparr>, l_do_rotation = False, l_angle = 0, l_opacity = 1,
      l_is_fixed = False, l_fixed_left = undefined_length, l_fixed_top = undefined_length,
      l_fixed_right = undefined_length, l_fixed_bottom = undefined_length\<rparr>"

text \<open>
  \<open>LayerAndroid(bool isRootLayer)\<close>. \<open>m_backgroundColor\<close> and
  \<open>m_backgroundColorSet\<close> are not initialised by the constructor; the model
  leaves them unspecified.
\<close>

definition layer_new :: "bool \<Rightarrow> env \<Rightarrow> layer \<times> env" where
  "layer_new root_layer e =
     (Layer default_sklayer
        \<lparr>is_root = root_layer, have_contents = False, draws_content = True, have_image = False,
         have_clip = False, recording = None, animations = [],
         bg_color = undefined, bg_color_set = undefined\<rparr> [],
      e\<lparr>instances := instances e + 1\<rparr>)"

text \<open>\<open>instancesCount()\<close> (lines 23-26).\<close>

definition instances_count :: "env \<Rightarrow> int" where
  "instances_count e = instances e"

section \<open>Preparing the recording (LayerAndroid.cpp 301-327)\<close>

text \<open>
  \<open>prepareContext(force)\<close>: a layer without contents needs no recording; the
  root drops any recording it has; any other layer allocates a fresh, empty
  recording when forced, when it has none, or when the recording's size
  differs from its own size truncated to integers. The result is whether the
  layer now has a recording.
\<close>

definition prepare_context :: "bool \<Rightarrow> sklayer \<Rightarrow> lprops \<Rightarrow> env \<Rightarrow> lprops \<times> env \<times> bool" where
  "prepare_context force b p e =
     (if \<not> have_contents p then (p, e, False)
      else
        (let (p', e') =
           (if \<not> is_root p then
              (if force \<or> recording p = None \<or>
                  (case recording p of None \<Rightarrow> False
                   | Some r \<Rightarrow> pic_w e r \<noteq> trunc_int (fw (l_size b))
                             \<or> pic_h e r \<noteq> trunc_int (fh (l_size b)))
               then (let e1 = safe_unref (recording p) e;
                         (r', e2) = new_picture e1
                     in (p\<lparr>recording := Some r'\<rparr>, e2))
               else (p, e))
            else if recording p \<noteq> None
              then (p\<lparr>recording := None\<rparr>, safe_unref (recording p) e)
            else (p, e))
         in (p', e', recording p' \<noteq> None)))"

text \<open>\<open>recordContext()\<close>: force a fresh recording and hand it to the layout engine.\<close>

definition record_context :: "sklayer \<Rightarrow> lprops \<Rightarrow> env \<Rightarrow> lprops \<times> env \<times> pic_id option" where
  "record_context b p e =
     (let (p', e', ok) = prepare_context True b p e
      in (p', e', if ok then recording p' else None))"

text \<open>The branches of \<open>prepareContext\<close>, one lemma each.\<close>

lemma prepare_context_no_contents:
  "\<not> have_contents p \<Longrightarrow> prepare_context force b p e = (p, e, False)"
  by (simp add: prepare_context_def)

lemma prepare_context_root_branch:
  "have_contents p \<Longrightarrow> is_root p \<Longrightarrow>
     prepare_context force b p e = (p\<lparr>recording := None\<rparr>, safe_unref (recording p) e, False)"
  by (cases "recording p") (simp_all add: prepare_context_def safe_unref_def)

lemma prepare_context_fresh_branch:
  assumes "have_contents p" and "\<not> is_root p"
    and "force \<or> recording p = None \<or>
         (\<exists>r. recording p = Some r \<and>
              (pic_w e r \<noteq> trunc_int (fw (l_size b)) \<or> pic_h e r \<noteq> trunc_int (fh (l_size b))))"
  shows "prepare_context force b p e =
           (let e1 = safe_unref (recording p) e
            in (p\<lparr>recording := Some (next_pic e1)\<rparr>, snd (new_picture e1), True))"
  using assms by (auto simp: prepare_context_def new_picture_def Let_def split: option.splits)

lemma prepare_context_keep_branch:
  assumes "have_contents p" and "\<not> is_root p" and "\<not> force" and "recording p = Some r"
    and "pic_w e r = trunc_int (fw (l_size b))" and "pic_h e r = trunc_int (fh (l_size b))"
  shows "prepare_context force b p e = (p, e, True)"
  using assms by (simp add: prepare_context_def)

lemma prepare_context_cases:
  obtains (none) "\<not> have_contents p" "prepare_context force b p e = (p, e, False)"
  | (root) "have_contents p" "is_root p"
      "prepare_context force b p e = (p\<lparr>recording := None\<rparr>, safe_unref (recording p) e, False)"
  | (fresh) "have_contents p" "\<not> is_root p"
      "prepare_context force b p e =
         (p\<lparr>recording := Some (next_pic (safe_unref (recording p) e))\<rparr>,
          snd (new_picture (safe_unref (recording p) e)), True)"
  | (keep) r where "have_contents p" "\<not> is_root p" "recording p = Some r"
      "prepare_context force b p e = (p, e, True)"
proof (cases "have_contents p")
  case False
  then show ?thesis using none prepare_context_no_contents by blast
next
  case hc: True
  show ?thesis
  proof (cases "is_root p")
    case True
    then show ?thesis using hc root prepare_context_root_branch by blast
  next
    case nr: False
    show ?thesis
    proof (cases "force \<or> recording p = None \<or>
         (\<exists>r. recording p = Some r \<and>
              (pic_w e r \<noteq> trunc_int (fw (l_size b)) \<or> pic_h e r \<noteq> trunc_int (fh (l_size b))))")
      case True
      then show ?thesis
        using fresh hc nr prepare_context_fresh_branch [OF hc nr True] by (simp add: Let_def)
    next
      case False
      then obtain r where "recording p = Some r" "\<not> force"
        "pic_w e r = trunc_int (fw (l_size b))" "pic_h e r = trunc_int (fh (l_size b))"
        by auto
      then show ?thesis using keep hc nr prepare_context_keep_branch by blast
    qed
  qed
qed

text \<open>Preparing one layer keeps the reference counts exact (no dangling, no leak).\<close>

lemma prepare_context_store_ok:
  assumes ok: "store_ok (C + mset_opt (recording p)) e"
    and pc: "prepare_context force b p e = (p', e', ok')"
  shows "store_ok (C + mset_opt (recording p')) e'"
  using pc
proof (cases rule: prepare_context_cases [of p force b e])
  case none
  with ok pc show ?thesis by simp
next
  case root
  with ok pc show ?thesis by (auto intro: store_ok_safe_unref)
next
  case fresh
  let ?e1 = "safe_unref (recording p) e"
  have ok1: "store_ok C ?e1" using ok by (rule store_ok_safe_unref)
  have "store_ok (C + {#next_pic ?e1#}) (snd (new_picture ?e1))"
    using store_ok_new_picture(1) [OF ok1] by (simp add: new_picture_def)
  with fresh pc show ?thesis by simp
next
  case keep
  with ok pc show ?thesis by simp
qed

text \<open>The other fields of the layer are never touched by \<open>prepareContext\<close>.\<close>

lemma prepare_context_frame:
  assumes "prepare_context force b p e = (p', e', ok')"
  shows "p' = p\<lparr>recording := recording p'\<rparr>"
    and "instances e' = instances e" "nb_anims e' = nb_anims e" "child_level e' = child_level e"
  using assms
  by (cases rule: prepare_context_cases [of p force b e];
      auto simp: safe_unref_def new_picture_def split: option.splits if_splits)+

text \<open>
  For a layer with contents, the boolean result is exactly whether the layer
  ends with a recording. (A layer without contents keeps whatever recording it
  has and reports false.)
\<close>

lemma prepare_context_result:
  "have_contents p \<Longrightarrow> prepare_context force b p e = (p', e', ok) \<Longrightarrow> ok = (recording p' \<noteq> None)"
  by (cases rule: prepare_context_cases [of p force b e]) auto

text \<open>A fresh recording is new to every owner, and empty: 0 by 0, no commands.\<close>

lemma prepare_context_fresh_facts:
  assumes ok: "store_ok (C + mset_opt (recording p)) e"
    and pc: "prepare_context force b p e =
      (p\<lparr>recording := Some (next_pic (safe_unref (recording p) e))\<rparr>,
       snd (new_picture (safe_unref (recording p) e)), True)"
    and res: "prepare_context force b p e = (p', e', ok')"
  shows "ok' \<and> (\<exists>r. recording p' = Some r \<and> r \<notin># C + mset_opt (recording p) \<and>
                   pics e' r = Some empty_picture)"
proof -
  let ?e1 = "safe_unref (recording p) e"
  have "next_pic ?e1 = next_pic e" by (simp add: store_ok_next_pic_mono)
  moreover have "next_pic e \<notin># C + mset_opt (recording p)" using store_ok_fresh(2) [OF ok] .
  moreover have "pics (snd (new_picture ?e1)) (next_pic ?e1) = Some empty_picture"
    by (simp add: new_picture_def)
  ultimately show ?thesis using pc res by auto
qed

text \<open>
  C5: for the root layer with contents, \<open>prepareContext\<close> always ends with
  no recording and reports that there is nothing to paint, whatever the
  argument \<open>force\<close>.
\<close>

theorem prepare_context_root_drops:
  assumes "have_contents p" and "is_root p"
    and "prepare_context force b p e = (p', e', ok)"
  shows "recording p' = None \<and> \<not> ok"
  using assms prepare_context_root_branch [OF assms(1,2)] by auto

theorem prepare_context_root_drops_witness:
  "have_contents \<lparr>is_root = True, have_contents = True, draws_content = True, have_image = False,
      have_clip = False, recording = Some 0, animations = [], bg_color = 0, bg_color_set = False\<rparr> \<and>
   is_root \<lparr>is_root = True, have_contents = True, draws_content = True, have_image = False,
      have_clip = False, recording = Some 0, animations = [], bg_color = 0, bg_color_set = False\<rparr> \<and>
   recording (fst (prepare_context True default_sklayer
     \<lparr>is_root = True, have_contents = True, draws_content = True, have_image = False,
      have_clip = False, recording = Some 0, animations = [], bg_color = 0, bg_color_set = False\<rparr>
     \<lparr>pics = [0 \<mapsto> empty_picture], next_pic = 1, instances = 1, nb_anims = 0, child_level = 0\<rparr>)) = None"
  using prepare_context_root_drops [of
     "\<lparr>is_root = True, have_contents = True, draws_content = True, have_image = False,
      have_clip = False, recording = Some 0, animations = [], bg_color = 0, bg_color_set = False\<rparr>"]
  by (simp add: prod_eq_iff)

text \<open>
  C6: a layer other than the root, with contents, whose recording is missing,
  forced out, or of another size than the layer's size truncated to
  integers, gets a recording that no owner held before, and that recording
  is empty: 0 by 0 with no commands, not the layer's size. The result is true.
\<close>

theorem prepare_context_fresh_recording:
  assumes "have_contents p" and "\<not> is_root p"
    and "store_ok (C + mset_opt (recording p)) e"
    and "force \<or> recording p = None \<or>
         (\<exists>r. recording p = Some r \<and>
              (pic_w e r \<noteq> trunc_int (fw (l_size b)) \<or> pic_h e r \<noteq> trunc_int (fh (l_size b))))"
    and "prepare_context force b p e = (p', e', ok)"
  shows "ok \<and> (\<exists>r. recording p' = Some r \<and> r \<notin># C + mset_opt (recording p) \<and>
                  pics e' r = Some empty_picture)"
proof (rule prepare_context_fresh_facts [OF assms(3) _ assms(5)])
  show "prepare_context force b p e =
      (p\<lparr>recording := Some (next_pic (safe_unref (recording p) e))\<rparr>,
       snd (new_picture (safe_unref (recording p) e)), True)"
    using prepare_context_fresh_branch [OF assms(1,2,4)] by (simp add: Let_def)
qed

text \<open>
  C7: the intended life cycle of a recording. After \<open>recordContext()\<close> hands
  a recording to the layout engine and the engine records into it at the
  layer's size (truncated to integers), \<open>prepareContext(false)\<close> changes
  nothing: the same recording is kept and replayed, and no picture is
  allocated or released.
\<close>

theorem prepare_context_stable_after_recording:
  assumes "have_contents p" and "\<not> is_root p"
    and "record_context b p e = (p1, e1, Some r)"
  shows "prepare_context False b p1
           (engine_record r (trunc_int (fw (l_size b))) (trunc_int (fh (l_size b))) ops e1) =
         (p1, engine_record r (trunc_int (fw (l_size b))) (trunc_int (fh (l_size b))) ops e1, True)"
proof -
  have pc: "prepare_context True b p e =
      (p\<lparr>recording := Some (next_pic (safe_unref (recording p) e))\<rparr>,
       snd (new_picture (safe_unref (recording p) e)), True)"
    using prepare_context_fresh_branch [where p = p and force = True and b = b and e = e] assms(1,2) by (simp add: Let_def)
  with assms(3) have p1: "p1 = p\<lparr>recording := Some r\<rparr>"
    and r: "r = next_pic (safe_unref (recording p) e)"
    and e1: "e1 = snd (new_picture (safe_unref (recording p) e))"
    by (auto simp: record_context_def)
  let ?w = "trunc_int (fw (l_size b))" and ?h = "trunc_int (fh (l_size b))"
  have live: "pics e1 r = Some empty_picture" by (simp add: e1 r new_picture_def)
  have "pic_w (engine_record r ?w ?h ops e1) r = ?w" "pic_h (engine_record r ?w ?h ops e1) r = ?h"
    using live by (simp_all add: pic_w_def pic_h_def deref_def engine_record_def)
  then show ?thesis
    using prepare_context_keep_branch [of "p1" False r] assms(1,2) by (simp add: p1)
qed

text \<open>
  C8: \<open>prepareContext\<close> is not idempotent by itself. A fresh recording is
  0 by 0 until the layout engine records into it, so when the layer's
  truncated width is not 0 and nothing was recorded in between, the next
  \<open>prepareContext(false)\<close> discards the recording it just made and allocates
  another one.
\<close>

theorem prepare_context_unrecorded_realloc:
  assumes "have_contents p" and "\<not> is_root p"
    and ok: "store_ok (C + mset_opt (recording p)) e"
    and w: "trunc_int (fw (l_size b)) \<noteq> 0"
    and pc1: "prepare_context True b p e = (p1, e1, ok1)"
    and pc2: "prepare_context False b p1 e1 = (p2, e2, ok2)"
  shows "recording p2 \<noteq> recording p1"
proof -
  have f1: "prepare_context True b p e =
      (p\<lparr>recording := Some (next_pic (safe_unref (recording p) e))\<rparr>,
       snd (new_picture (safe_unref (recording p) e)), True)"
    using prepare_context_fresh_branch [where p = p and force = True and b = b and e = e] assms(1,2) by (simp add: Let_def)
  from prepare_context_fresh_facts [OF ok f1 pc1] obtain r1 where
    r1: "recording p1 = Some r1" and empty: "pics e1 r1 = Some empty_picture" by auto
  from pc1 f1 have ok1': "store_ok (C + mset_opt (recording p1)) e1"
    using prepare_context_store_ok [OF ok pc1] by simp
  have hc1: "have_contents p1" "\<not> is_root p1" using pc1 f1 assms(1,2) by auto
  from empty w have "pic_w e1 r1 \<noteq> trunc_int (fw (l_size b))"
    by (simp add: pic_w_def deref_def empty_picture_def)
  with r1 have stale: "False \<or> recording p1 = None \<or>
      (\<exists>r. recording p1 = Some r \<and>
           (pic_w e1 r \<noteq> trunc_int (fw (l_size b)) \<or> pic_h e1 r \<noteq> trunc_int (fh (l_size b))))"
    by auto
  have f2: "prepare_context False b p1 e1 =
      (p1\<lparr>recording := Some (next_pic (safe_unref (recording p1) e1))\<rparr>,
       snd (new_picture (safe_unref (recording p1) e1)), True)"
    using prepare_context_fresh_branch [OF hc1 stale] by (simp add: Let_def)
  from prepare_context_fresh_facts [OF ok1' f2 pc2] r1 show ?thesis by auto
qed

end
