(* ===== verification/LayerTree.thy ===== *)
theory LayerTree
  imports Layer
begin

text \<open>
  The operations of LayerAndroid.cpp that walk or rebuild the tree of layers:
  the copy constructor (lines 57-75), the destructor (77-83),
  \<open>hasAnimations\<close> (94-101), \<open>setDrawsContent\<close> (132-139) and the setters
  built on it (143-160), and the animation map updates (122-130). Each loop
  over the children is a function on the child list, defined together with
  the function on one layer (mutual \<^theory_text>\<open>primrec\<close>), so that every
  definition is structurally recursive and total. Properties of such pairs
  are proved with the induction rule \<open>layer_mutual_induct\<close>.
\<close>

section \<open>Measures of a tree\<close>

primrec node_count :: "layer \<Rightarrow> nat" and node_count_list :: "layer list \<Rightarrow> nat" where
  "node_count (Layer b p cs) = Suc (node_count_list cs)"
| "node_count_list [] = 0"
| "node_count_list (c # cs) = node_count c + node_count_list cs"

text \<open>The recordings a tree holds, with multiplicity.\<close>

primrec refs :: "layer \<Rightarrow> pic_id multiset" and refs_list :: "layer list \<Rightarrow> pic_id multiset" where
  "refs (Layer b p cs) = mset_opt (recording p) + refs_list cs"
| "refs_list [] = {#}"
| "refs_list (c # cs) = refs c + refs_list cs"

text \<open>A property of every node, and of some node, of a tree.\<close>

primrec all_nodes :: "(sklayer \<Rightarrow> lprops \<Rightarrow> bool) \<Rightarrow> layer \<Rightarrow> bool" where
  "all_nodes P (Layer b p cs) \<longleftrightarrow> P b p \<and> list_all (all_nodes P) cs"

primrec ex_node :: "(sklayer \<Rightarrow> lprops \<Rightarrow> bool) \<Rightarrow> layer \<Rightarrow> bool" where
  "ex_node P (Layer b p cs) \<longleftrightarrow> P b p \<or> (\<exists>x \<in> set (map (ex_node P) cs). x)"

primrec anim_count :: "layer \<Rightarrow> nat" where
  "anim_count (Layer b p cs) = length (animations p) + sum_list (map anim_count cs)"

section \<open>Copy constructor (LayerAndroid.cpp 57-75)\<close>

text \<open>
  The animation map of the copy is built by \<open>add\<close>-ing a copy of every handle,
  in the source map's iteration order, into an empty map.
\<close>

definition copy_anims :: "keyframes \<Rightarrow> keyframes" where
  "copy_anims m = foldl (\<lambda>acc (k, a). hm_add (anim_name a) (anim_copy a) acc) [] m"

text \<open>
  \<open>LayerAndroid(const LayerAndroid&)\<close>: the base properties are copied, the
  recording is shared (\<open>SkSafeRef\<close>), every child is deep-copied and
  appended in order, the animations are copied, and the instance counter is
  incremented. The background colour fields are not in the initialiser list
  and are left unspecified.
\<close>

primrec copy_layer :: "layer \<Rightarrow> env \<Rightarrow> layer \<times> env"
  and copy_list :: "layer list \<Rightarrow> env \<Rightarrow> layer list \<times> env" where
  "copy_layer (Layer b p cs) e =
     (let e1 = safe_ref (recording p) e;
          (cs', e2) = copy_list cs e1;
          p' = p\<lparr>animations := copy_anims (animations p),
                 bg_color := undefined, bg_color_set := undefined\<rparr>
      in (Layer b p' cs', e2\<lparr>instances := instances e2 + 1\<rparr>))"
| "copy_list [] e = ([], e)"
| "copy_list (c # cs) e =
     (let (c', e1) = copy_layer c e;
          (cs', e2) = copy_list cs e1
      in (c' # cs', e2))"

section \<open>Destructor (LayerAndroid.cpp 77-83)\<close>

text \<open>
  \<open>~LayerAndroid()\<close>: \<open>removeChildren()\<close> releases (and, as sole owner,
  destroys) every child in order, then the recording is released, the
  animation map cleared and the instance counter decremented.
\<close>

primrec destroy_layer :: "layer \<Rightarrow> env \<Rightarrow> env"
  and destroy_list :: "layer list \<Rightarrow> env \<Rightarrow> env" where
  "destroy_layer (Layer b p cs) e =
     (let e1 = destroy_list cs e;
          e2 = safe_unref (recording p) e1
      in e2\<lparr>instances := instances e2 - 1\<rparr>)"
| "destroy_list [] e = e"
| "destroy_list (c # cs) e = destroy_list cs (destroy_layer c e)"

section \<open>Queries and recursive setters\<close>

text \<open>\<open>hasAnimations()\<close>: the children are asked first, in order.\<close>

primrec has_animations :: "layer \<Rightarrow> bool"
  and has_animations_list :: "layer list \<Rightarrow> bool" where
  "has_animations (Layer b p cs) = (if has_animations_list cs then True else animations p \<noteq> [])"
| "has_animations_list [] = False"
| "has_animations_list (c # cs) = (if has_animations c then True else has_animations_list cs)"

text \<open>\<open>setDrawsContent(b)\<close>: the layer, then every child, recursively.\<close>

primrec set_draws_content :: "bool \<Rightarrow> layer \<Rightarrow> layer"
  and set_draws_content_list :: "bool \<Rightarrow> layer list \<Rightarrow> layer list" where
  "set_draws_content v (Layer b p cs) =
     Layer b (p\<lparr>draws_content := v\<rparr>) (set_draws_content_list v cs)"
| "set_draws_content_list v [] = []"
| "set_draws_content_list v (c # cs) = set_draws_content v c # set_draws_content_list v cs"

text \<open>\<open>setMaskLayer(layer)\<close>: only the presence of a mask is used, as a clip.\<close>

definition set_mask_layer :: "layer option \<Rightarrow> lprops \<Rightarrow> lprops" where
  "set_mask_layer m p = (if m \<noteq> None then p\<lparr>have_clip := True\<rparr> else p)"

definition set_masks_to_bounds :: "bool \<Rightarrow> lprops \<Rightarrow> lprops" where
  "set_masks_to_bounds v p = p\<lparr>have_clip := v\<rparr>"

text \<open>\<open>setHaveContents(b)\<close> (inline in LayerAndroid.h, not in this repository).\<close>

definition set_have_contents :: "bool \<Rightarrow> lprops \<Rightarrow> lprops" where
  "set_have_contents v p = p\<lparr>have_contents := v\<rparr>"

text \<open>\<open>setBackgroundColor(color)\<close>: ends with the recursive \<open>setDrawsContent(true)\<close>.\<close>

definition set_background_color :: "32 word \<Rightarrow> layer \<Rightarrow> layer" where
  "set_background_color c t =
     (case t of Layer b p cs \<Rightarrow>
        set_draws_content True
          (Layer b (set_have_contents True (p\<lparr>bg_color := c, bg_color_set := True\<rparr>)) cs))"

section \<open>The animation map (LayerAndroid.cpp 122-130)\<close>

definition add_animation :: "anim \<Rightarrow> lprops \<Rightarrow> lprops" where
  "add_animation a p = p\<lparr>animations := hm_add (anim_name a) a (animations p)\<rparr>"

definition remove_animation :: "string \<Rightarrow> lprops \<Rightarrow> lprops" where
  "remove_animation k p = p\<lparr>animations := hm_remove k (animations p)\<rparr>"

section \<open>Applying a change to every node\<close>

primrec map_own :: "(lprops \<Rightarrow> lprops) \<Rightarrow> layer \<Rightarrow> layer" where
  "map_own f (Layer b p cs) = Layer b (f p) (map (map_own f) cs)"

section \<open>Well-formed animation maps\<close>

text \<open>
  The abstraction of the association list is \<open>map_of\<close>. A well-formed map has
  distinct keys, each the name of its handle (\<open>addAnimation\<close> keys every
  handle by \<open>anim->name()\<close>).
\<close>

definition anims_wf :: "keyframes \<Rightarrow> bool" where
  "anims_wf m \<longleftrightarrow> distinct (map fst m) \<and> (\<forall>(k, a) \<in> set m. anim_name a = k)"

section \<open>Induction over a layer and its child list\<close>

lemma layer_mutual_induct:
  assumes layer: "\<And>b p cs. Q cs \<Longrightarrow> P (Layer b p cs)"
    and nil: "Q []"
    and cons: "\<And>t ts. P t \<Longrightarrow> Q ts \<Longrightarrow> Q (t # ts)"
  shows "P t" and "Q ts"
proof -
  have P: "P t" for t
  proof (induction t)
    case (Layer b p cs)
    have "Q cs" using Layer.IH by (induction cs) (auto intro: nil cons)
    then show ?case by (rule layer)
  qed
  show "P t" by (rule P)
  show "Q ts" by (induction ts) (auto intro: nil cons P)
qed

section \<open>Facts about map_own\<close>

lemma all_nodes_map_own:
  "all_nodes P (map_own f t) = all_nodes (\<lambda>b p. P b (f p)) t"
  by (induction t) (simp add: list_all_iff)

lemma node_count_map_own:
  "node_count (map_own f t) = node_count t"
  "node_count_list (map (map_own f) ts) = node_count_list ts"
  by (induction t and ts rule: layer_mutual_induct) simp_all

lemma node_count_list_sum: "node_count_list ts = sum_list (map node_count ts)"
  by (induction ts) simp_all

section \<open>The recursive queries and setters\<close>

lemma has_animations_ex_node:
  "has_animations t = ex_node (\<lambda>b p. animations p \<noteq> []) t"
  "has_animations_list ts = (\<exists>x \<in> set ts. ex_node (\<lambda>b p. animations p \<noteq> []) x)"
  by (induction t and ts rule: layer_mutual_induct) auto

lemma set_draws_content_map_own:
  "set_draws_content v t = map_own (\<lambda>p. p\<lparr>draws_content := v\<rparr>) t"
  "set_draws_content_list v ts = map (map_own (\<lambda>p. p\<lparr>draws_content := v\<rparr>)) ts"
  by (induction t and ts rule: layer_mutual_induct) simp_all

section \<open>The animation map as a finite map\<close>

lemma map_of_hm_add:
  "map_of (hm_add k v m) = (if k \<in> dom (map_of m) then map_of m else (map_of m)(k \<mapsto> v))"
  by (simp add: hm_add_def dom_map_of_conv_image_fst map_of_append map_add_upd_left)

lemma map_of_hm_remove: "map_of (hm_remove k m) = (map_of m)(k := None)"
  by (induction m) (auto simp: hm_remove_def)

lemma anims_wf_hm_add: "anims_wf m \<Longrightarrow> anims_wf (hm_add (anim_name a) a m)"
  by (auto simp: anims_wf_def hm_add_def)

lemma anims_wf_hm_remove: "anims_wf m \<Longrightarrow> anims_wf (hm_remove k m)"
  by (auto simp: anims_wf_def hm_remove_def distinct_map_filter)

lemma anims_wf_Nil [simp]: "anims_wf []"
  by (simp add: anims_wf_def)

section \<open>Copy and destroy: shape, instance counter, reference counts\<close>

lemma refs_map_own:
  assumes "\<And>p. recording (f p) = recording p"
  shows "refs (map_own f t) = refs t" and "refs_list (map (map_own f) ts) = refs_list ts"
  by (induction t and ts rule: layer_mutual_induct) (simp_all add: assms)

lemma store_ok_env_counters [simp]:
  "store_ok R (e\<lparr>instances := i\<rparr>) = store_ok R e"
  "store_ok R (e\<lparr>nb_anims := n\<rparr>) = store_ok R e"
  "store_ok R (e\<lparr>child_level := l\<rparr>) = store_ok R e"
  by (simp_all add: store_ok_def)

lemma copy_layer_fst:
  "fst (copy_layer t e) = map_own (\<lambda>p. p\<lparr>animations := copy_anims (animations p),
      bg_color := undefined, bg_color_set := undefined\<rparr>) t"
  "fst (copy_list ts e) = map (map_own (\<lambda>p. p\<lparr>animations := copy_anims (animations p),
      bg_color := undefined, bg_color_set := undefined\<rparr>)) ts"
  by (induction t and ts arbitrary: e and e rule: layer_mutual_induct)
     (simp_all add: Let_def case_prod_unfold)

lemma copy_layer_instances:
  "instances (snd (copy_layer t e)) = instances e + int (node_count t)"
  "instances (snd (copy_list ts e)) = instances e + int (node_count_list ts)"
  by (induction t and ts arbitrary: e and e rule: layer_mutual_induct)
     (simp_all add: Let_def case_prod_unfold safe_ref_def split: option.splits)

lemma copy_layer_store_ok:
  "store_ok (C + refs t) e \<Longrightarrow> store_ok (C + refs t + refs t) (snd (copy_layer t e))"
  "store_ok (C + refs_list ts) e \<Longrightarrow>
     store_ok (C + refs_list ts + refs_list ts) (snd (copy_list ts e))"
proof (induction t and ts arbitrary: C e and C e rule: layer_mutual_induct)
  case (1 b p cs)
  let ?r = "mset_opt (recording p)"
  have "set_option (recording p) \<subseteq> set_mset (C + refs (Layer b p cs))"
    by (cases "recording p") simp_all
  with "1.prems" have "store_ok (C + refs (Layer b p cs) + ?r) (safe_ref (recording p) e)"
    by (rule store_ok_safe_ref)
  then have "store_ok ((C + ?r + ?r) + refs_list cs) (safe_ref (recording p) e)"
    by (simp add: ac_simps)
  then have "store_ok ((C + ?r + ?r) + refs_list cs + refs_list cs)
      (snd (copy_list cs (safe_ref (recording p) e)))"
    by (rule "1.IH")
  then show ?case by (simp add: Let_def case_prod_unfold ac_simps)
next
  case 2
  then show ?case by simp
next
  case (3 c cs)
  from "3.prems" have "store_ok ((C + refs_list cs) + refs c) e" by (simp add: ac_simps)
  then have "store_ok ((C + refs_list cs) + refs c + refs c) (snd (copy_layer c e))"
    by (rule "3.IH"(1))
  then have "store_ok ((C + refs c + refs c) + refs_list cs) (snd (copy_layer c e))"
    by (simp add: ac_simps)
  then have "store_ok ((C + refs c + refs c) + refs_list cs + refs_list cs)
      (snd (copy_list cs (snd (copy_layer c e))))"
    by (rule "3.IH"(2))
  then show ?case by (simp add: Let_def case_prod_unfold ac_simps)
qed

lemma destroy_layer_instances:
  "instances (destroy_layer t e) = instances e - int (node_count t)"
  "instances (destroy_list ts e) = instances e - int (node_count_list ts)"
  by (induction t and ts arbitrary: e and e rule: layer_mutual_induct)
     (simp_all add: Let_def safe_unref_def split: option.splits)

lemma destroy_layer_store_ok:
  "store_ok (C + refs t) e \<Longrightarrow> store_ok C (destroy_layer t e)"
  "store_ok (C + refs_list ts) e \<Longrightarrow> store_ok C (destroy_list ts e)"
proof (induction t and ts arbitrary: C e and C e rule: layer_mutual_induct)
  case (1 b p cs)
  from "1.prems" have "store_ok ((C + mset_opt (recording p)) + refs_list cs) e"
    by (simp add: ac_simps)
  then have "store_ok (C + mset_opt (recording p)) (destroy_list cs e)" by (rule "1.IH")
  then have "store_ok C (safe_unref (recording p) (destroy_list cs e))"
    by (rule store_ok_safe_unref)
  then show ?case by (simp add: Let_def)
next
  case 2
  then show ?case by simp
next
  case (3 c cs)
  from "3.prems" have "store_ok ((C + refs_list cs) + refs c) e" by (simp add: ac_simps)
  then have "store_ok (C + refs_list cs) (destroy_layer c e)" by (rule "3.IH"(1))
  then show ?case by (simp add: "3.IH"(2))
qed

section \<open>Properties of the tree operations\<close>

text \<open>
  C14: \<open>setDrawsContent(v)\<close> reaches the whole subtree: afterwards every
  layer of the subtree has \<open>draws_content = v\<close>.
\<close>

theorem set_draws_content_all:
  "all_nodes (\<lambda>b p. draws_content p = v) (set_draws_content v t)"
proof -
  have "all_nodes (\<lambda>b p. draws_content (p\<lparr>draws_content := v\<rparr>) = v) t"
    by (induction t) (simp add: list_all_iff)
  then show ?thesis by (simp add: set_draws_content_map_own(1) all_nodes_map_own)
qed

text \<open>
  C15: \<open>hasAnimations()\<close> is true exactly when some layer of the subtree has a
  non-empty animation map.
\<close>

theorem has_animations_iff:
  "has_animations t \<longleftrightarrow> ex_node (\<lambda>b p. animations p \<noteq> []) t"
  by (rule has_animations_ex_node(1))

text \<open>
  C16: \<open>addAnimation\<close> refines a finite-map insertion that keeps an existing
  entry: seen through \<open>map_of\<close>, adding a handle under a name already present
  leaves the map unchanged (\<open>HashMap::add\<close> does not replace), and otherwise
  maps the name to the new handle. The map stays well formed.
\<close>

theorem add_animation_keeps_existing:
  assumes "anims_wf (animations p)"
  shows "map_of (animations (add_animation a p)) =
           (if anim_name a \<in> dom (map_of (animations p)) then map_of (animations p)
            else (map_of (animations p))(anim_name a \<mapsto> a)) \<and>
         anims_wf (animations (add_animation a p))"
  using assms by (simp add: add_animation_def map_of_hm_add anims_wf_hm_add)

text \<open>
  C17: the copy constructor shares recordings: copying a tree whose
  recordings are counted exactly leaves the counts exact for the original
  and the copy together, and the copy holds exactly the original's
  recordings.
\<close>

theorem copy_shares_recordings:
  assumes "store_ok (C + refs t) e"
  shows "refs (fst (copy_layer t e)) = refs t \<and>
         store_ok (C + refs t + refs (fst (copy_layer t e))) (snd (copy_layer t e))"
proof -
  have r: "refs (fst (copy_layer t e)) = refs t"
    by (simp add: copy_layer_fst(1) refs_map_own(1))
  with copy_layer_store_ok(1) [OF assms] show ?thesis by simp
qed

text \<open>
  C18: the destructor releases exactly the recordings of the subtree and
  decrements the instance counter once per layer of the subtree.
\<close>

theorem destroy_releases:
  assumes "store_ok (C + refs t) e"
  shows "store_ok C (destroy_layer t e) \<and>
         instances (destroy_layer t e) = instances e - int (node_count t)"
  using destroy_layer_store_ok(1) [OF assms] destroy_layer_instances(1) by simp

end
