(* ===== verification/Paint.thy ===== *)
theory Paint
  imports LayerTree
begin

text \<open>
  The composition traversal (LayerAndroid.cpp 164-299): \<open>draw\<close> starts
  \<open>paintChildren\<close> at the root with opacity 1; \<open>paintChildren\<close> saves the
  canvas, clips to the layer's bounds when \<open>m_haveClip\<close>, paints the layer
  itself (\<open>paintMe\<close>), translates the canvas by position plus translation,
  paints every child with the opacity multiplied by the layer's own, and
  restores the canvas. \<open>paintMe\<close> prepares the recording, skips layers that
  draw nothing, installs an opacity filter when the effective 8-bit opacity
  is not 255, composes the layer's matrix (the fixed-position translation of
  \<open>calcPosition\<close>, or rotation about the anchor, scale about the centre and
  the offset) and replays the recording. The traversal threads the global
  state (picture store, \<open>gDebugChildLevel\<close>) and the canvas, and returns the
  tree with the recordings \<open>prepareContext\<close> may have replaced.
\<close>

section \<open>Clip, position and matrix\<close>

text \<open>\<open>setClip(canvas)\<close> (lines 170-178).\<close>

definition set_clip :: "sklayer \<Rightarrow> canvas \<Rightarrow> canvas" where
  "set_clip b c =
     (let left = px (l_position b) + px (l_translation b);
          top = py (l_position b) + py (l_translation b)
      in clip_rect \<lparr>r_left = left, r_top = top,
                    r_right = left + fw (l_size b), r_bottom = top + fh (l_size b)\<rparr> c)"

text \<open>\<open>calcPosition(viewPort, matrix)\<close> (lines 205-229): \<open>None\<close> is the \<open>false\<close> return.\<close>

definition calc_position :: "rect option \<Rightarrow> sklayer \<Rightarrow> matrix option" where
  "calc_position vp b =
     (case vp of
        None \<Rightarrow> None
      | Some v \<Rightarrow>
          if \<not> l_is_fixed b then None
          else
            (let w = rect_width v; h = rect_height v; dx = r_left v; dy = r_top v;
                 x = (if len_defined (l_fixed_left b) then dx + calc_float_value (l_fixed_left b) w
                      else if len_defined (l_fixed_right b)
                        then dx + w - calc_float_value (l_fixed_right b) w - fw (l_size b)
                      else 0);
                 y = (if len_defined (l_fixed_top b) then dy + calc_float_value (l_fixed_top b) h
                      else if len_defined (l_fixed_bottom b)
                        then dy + h - calc_float_value (l_fixed_bottom b) h - fh (l_size b)
                      else 0)
             in Some (translate_m x y)))"

text \<open>The matrix of a layer that is not placed by \<open>calcPosition\<close> (lines 261-280).\<close>

definition layer_matrix :: "sklayer \<Rightarrow> matrix" where
  "layer_matrix b =
     (let m0 = identity_m;
          anchor_x = px (l_anchor b) * fw (l_size b);
          anchor_y = py (l_anchor b) * fh (l_size b);
          m1 = (if l_do_rotation b
                then pre_translate (pre_rotate (pre_translate m0 anchor_x anchor_y) (l_angle b))
                       (- anchor_x) (- anchor_y)
                else m0);
          sx = px (l_scale b); sy = py (l_scale b);
          m2 = (if sx > 1 \<or> sy > 1
                then (let dx = sx * fw (l_size b) - fw (l_size b);
                          dy = sy * fh (l_size b) - fh (l_size b)
                      in pre_scale (pre_translate m1 (- dx / 2) (- dy / 2)) sx sy)
                else m1)
      in post_translate m2 (px (l_translation b) + px (l_position b))
                           (py (l_translation b) + py (l_position b)))"

text \<open>\<open>int canvasOpacity = opacity * m_opacity * 255;\<close> (line 243): a truncating cast.\<close>

definition canvas_opacity :: "real \<Rightarrow> sklayer \<Rightarrow> int" where
  "canvas_opacity opacity b = trunc_int (opacity * l_opacity b * 255)"

section \<open>Painting one layer (LayerAndroid.cpp 231-299)\<close>

definition paint_me ::
  "rect option \<Rightarrow> real \<Rightarrow> sklayer \<Rightarrow> lprops \<Rightarrow> env \<Rightarrow> canvas \<Rightarrow> lprops \<times> env \<times> canvas" where
  "paint_me vp opacity b p e c =
     (let (p1, e1, ok) = prepare_context False b p e
      in if \<not> ok then (p1, e1, c)
         else if \<not> have_image p1 \<and> \<not> draws_content p1 \<and> \<not> is_root p1 then (p1, e1, c)
         else
           (let (n, c1) = save c;
                co = canvas_opacity opacity b;
                c2 = (if co \<noteq> 255 then set_draw_filter (Some (opacity_filter_new co)) c1 else c1);
                m = (case calc_position vp b of Some m \<Rightarrow> m | None \<Rightarrow> layer_matrix b);
                c3 = concat m c2;
                c4 = draw_picture (deref e1 (the (recording p1))) c3
            in (p1, e1, restore_to_count n c4)))"

section \<open>The traversal (LayerAndroid.cpp 164-203)\<close>

primrec paint_children ::
    "rect option \<Rightarrow> real \<Rightarrow> layer \<Rightarrow> env \<Rightarrow> canvas \<Rightarrow> layer \<times> env \<times> canvas"
  and paint_list ::
    "rect option \<Rightarrow> real \<Rightarrow> layer list \<Rightarrow> env \<Rightarrow> canvas \<Rightarrow> layer list \<times> env \<times> canvas" where
  "paint_children vp opacity (Layer b p cs) e c =
     (let (n, c1) = save c;
          c2 = (if have_clip p then set_clip b c1 else c1);
          (p', e3, c3) = paint_me vp opacity b p e c2;
          c4 = translate (px (l_position b) + px (l_translation b))
                         (py (l_position b) + py (l_translation b)) c3;
          (cs', e5, c5) = paint_list vp (opacity * l_opacity b) cs e3 c4
      in (Layer b p' cs', e5, restore_to_count n c5))"
| "paint_list vp opacity [] e c = ([], e, c)"
| "paint_list vp opacity (t # ts) e c =
     (let (t', e1, c1) = paint_children vp opacity t (e\<lparr>child_level := child_level e + 1\<rparr>) c;
          e2 = e1\<lparr>child_level := child_level e1 - 1\<rparr>;
          (ts', e3, c3) = paint_list vp opacity ts e2 c1
      in (t' # ts', e3, c3))"

text \<open>\<open>draw(canvas, viewPort)\<close> (lines 164-168).\<close>

definition draw :: "canvas \<Rightarrow> rect option \<Rightarrow> layer \<Rightarrow> env \<Rightarrow> layer \<times> env \<times> canvas" where
  "draw c vp t e = paint_children vp 1 t (e\<lparr>child_level := 0\<rparr>) c"

text \<open>Painting changes no property of any layer other than its recording.\<close>

definition strip_recordings :: "layer \<Rightarrow> layer" where
  "strip_recordings = map_own (\<lambda>p. p\<lparr>recording := None\<rparr>)"

section \<open>The canvas is left as it was found\<close>

lemma c_saved_set_clip [simp]: "c_saved (set_clip b c) = c_saved c"
  by (simp add: set_clip_def Let_def)

lemma paint_me_layer:
  "fst (paint_me vp opacity b p e c) = fst (prepare_context False b p e)"
  by (simp add: paint_me_def Let_def case_prod_unfold)

lemma paint_me_env:
  "fst (snd (paint_me vp opacity b p e c)) = fst (snd (prepare_context False b p e))"
  by (simp add: paint_me_def Let_def case_prod_unfold)

lemma paint_me_canvas:
  "c_state (snd (snd (paint_me vp opacity b p e c))) = c_state c"
  "c_saved (snd (snd (paint_me vp opacity b p e c))) = c_saved c"
  by (simp_all add: paint_me_def Let_def case_prod_unfold save_def restore_to_count_saved)

lemma paint_children_canvas:
  "c_state (snd (snd (paint_children vp opacity t e c))) = c_state c \<and>
   c_saved (snd (snd (paint_children vp opacity t e c))) = c_saved c"
  "c_state (snd (snd (paint_list vp opacity ts e c))) = c_state c \<and>
   c_saved (snd (snd (paint_list vp opacity ts e c))) = c_saved c"
  by (induction t and ts arbitrary: opacity e c and opacity e c rule: layer_mutual_induct)
     (simp_all add: Let_def case_prod_unfold save_def restore_to_count_saved paint_me_canvas)

section \<open>What painting changes in the layers and the global state\<close>

lemma prepare_context_child_level:
  "child_level (fst (snd (prepare_context force b p e))) = child_level e"
  using prepare_context_frame(4) [of force b p e] by (cases "prepare_context force b p e") auto

lemma paint_children_child_level:
  "child_level (fst (snd (paint_children vp opacity t e c))) = child_level e"
  "child_level (fst (snd (paint_list vp opacity ts e c))) = child_level e"
  by (induction t and ts arbitrary: opacity e c and opacity e c rule: layer_mutual_induct)
     (simp_all add: Let_def case_prod_unfold paint_me_env prepare_context_child_level)

lemma prepare_context_store_ok':
  "store_ok (C + mset_opt (recording p)) e \<Longrightarrow>
   store_ok (C + mset_opt (recording (fst (prepare_context force b p e))))
            (fst (snd (prepare_context force b p e)))"
  using prepare_context_store_ok [of C p e force b] by (cases "prepare_context force b p e") auto

lemma paint_children_store_ok:
  "store_ok (C + refs t) e \<Longrightarrow>
     store_ok (C + refs (fst (paint_children vp opacity t e c)))
              (fst (snd (paint_children vp opacity t e c)))"
  "store_ok (C + refs_list ts) e \<Longrightarrow>
     store_ok (C + refs_list (fst (paint_list vp opacity ts e c)))
              (fst (snd (paint_list vp opacity ts e c)))"
proof (induction t and ts arbitrary: C opacity e c and C opacity e c rule: layer_mutual_induct)
  case (1 b p cs)
  let ?pc = "prepare_context False b p e"
  from "1.prems" have "store_ok ((C + refs_list cs) + mset_opt (recording p)) e"
    by (simp add: ac_simps)
  then have "store_ok ((C + refs_list cs) + mset_opt (recording (fst ?pc))) (fst (snd ?pc))"
    by (rule prepare_context_store_ok')
  then have "store_ok ((C + mset_opt (recording (fst ?pc))) + refs_list cs) (fst (snd ?pc))"
    by (simp add: ac_simps)
  then have "store_ok ((C + mset_opt (recording (fst ?pc))) + refs_list (fst (paint_list vp
      (opacity * l_opacity b) cs (fst (snd ?pc)) c')))
      (fst (snd (paint_list vp (opacity * l_opacity b) cs (fst (snd ?pc)) c')))" for c'
    by (rule "1.IH")
  then show ?case by (simp add: Let_def case_prod_unfold paint_me_layer paint_me_env ac_simps)
next
  case 2
  then show ?case by simp
next
  case (3 t ts)
  let ?e0 = "e\<lparr>child_level := child_level e + 1\<rparr>"
  let ?r = "paint_children vp opacity t ?e0 c"
  from "3.prems" have "store_ok ((C + refs_list ts) + refs t) ?e0" by (simp add: ac_simps)
  then have "store_ok ((C + refs_list ts) + refs (fst ?r)) (fst (snd ?r))"
    by (rule "3.IH"(1))
  then have "store_ok ((C + refs (fst ?r)) + refs_list ts)
      ((fst (snd ?r))\<lparr>child_level := child_level (fst (snd ?r)) - 1\<rparr>)"
    by (simp add: ac_simps)
  then have "store_ok ((C + refs (fst ?r)) + refs_list (fst (paint_list vp opacity ts
      ((fst (snd ?r))\<lparr>child_level := child_level (fst (snd ?r)) - 1\<rparr>) c')))
      (fst (snd (paint_list vp opacity ts
      ((fst (snd ?r))\<lparr>child_level := child_level (fst (snd ?r)) - 1\<rparr>) c')))" for c'
    by (rule "3.IH"(2))
  then show ?case by (simp add: Let_def case_prod_unfold ac_simps)
qed

lemma prepare_context_strip:
  "(fst (prepare_context force b p e))\<lparr>recording := None\<rparr> = p\<lparr>recording := None\<rparr>"
  using prepare_context_frame(1) [of force b p e]
  by (cases "prepare_context force b p e") (metis fst_conv lprops.update_convs(6) lprops.surjective)

lemma paint_me_strip:
  "(fst (paint_me vp opacity b p e c))\<lparr>recording := None\<rparr> = p\<lparr>recording := None\<rparr>"
  by (simp add: paint_me_def Let_def case_prod_unfold prepare_context_strip)

lemma paint_children_frame:
  "strip_recordings (fst (paint_children vp opacity t e c)) = strip_recordings t"
  "map strip_recordings (fst (paint_list vp opacity ts e c)) = map strip_recordings ts"
  by (induction t and ts arbitrary: opacity e c and opacity e c rule: layer_mutual_induct)
     (simp_all add: strip_recordings_def Let_def case_prod_unfold paint_me_strip)

section \<open>Properties of paintMe\<close>

text \<open>
  C4: the recording \<open>paintMe\<close> replays is alive. If the reference counts are
  exact before \<open>prepareContext(false)\<close> and it reports a recording to paint,
  that recording is an allocated picture of the store, so the replay
  \<open>m_recordingPicture->draw(canvas)\<close> never reads a freed picture.
\<close>

theorem paint_me_replays_live_picture:
  assumes ok: "store_ok (C + mset_opt (recording p)) e"
    and pc: "prepare_context False b p e = (p', e', True)"
  shows "\<exists>r pic. recording p' = Some r \<and> pics e' r = Some pic \<and> deref e' r = pic"
proof -
  have hc: "have_contents p"
    using pc by (cases "have_contents p") (simp_all add: prepare_context_no_contents)
  from prepare_context_result [OF hc pc] obtain r where r: "recording p' = Some r" by auto
  have "store_ok (C + mset_opt (recording p')) e'" by (rule prepare_context_store_ok [OF ok pc])
  with r obtain pic where "pics e' r = Some pic"
    using store_ok_alive [of "C + {#r#}" e' r] by auto
  with r show ?thesis by (simp add: deref_def)
qed

text \<open>
  C9: with both opacities in [0, 1], the opacity the filter installs is in
  [0, 255], and converting it to the 8-bit alpha of a paint loses nothing.
\<close>

theorem canvas_opacity_byte_range:
  assumes "0 \<le> opacity" "opacity \<le> 1" "0 \<le> l_opacity b" "l_opacity b \<le> 1"
  shows "0 \<le> canvas_opacity opacity b \<and> canvas_opacity opacity b \<le> 255 \<and>
         uint (word_of_int (canvas_opacity opacity b) :: alpha) = canvas_opacity opacity b"
proof -
  have prod: "0 \<le> opacity * l_opacity b \<and> opacity * l_opacity b \<le> 1"
    using assms by (simp add: mult_le_one)
  then have lo: "0 \<le> opacity * l_opacity b * 255" and hi: "opacity * l_opacity b * 255 \<le> of_int 255"
    by simp_all
  have bnd: "0 \<le> canvas_opacity opacity b \<and> canvas_opacity opacity b \<le> 255"
    unfolding canvas_opacity_def by (rule trunc_int_bounds [OF lo hi])
  then have "take_bit 8 (canvas_opacity opacity b) = canvas_opacity opacity b"
    by (simp add: take_bit_eq_mod)
  with bnd show ?thesis by (simp add: uint_word_of_int_eq)
qed

section \<open>The layer's own matrix\<close>

text \<open>
  C10: scale factors no greater than 1 are not applied at all: a layer that is
  not rotated, not fixed, and has both scale factors at most 1 is drawn with
  a pure translation by position plus translation, whatever its scale.
\<close>

theorem layer_matrix_ignores_small_scale:
  assumes "\<not> l_do_rotation b" "px (l_scale b) \<le> 1" "py (l_scale b) \<le> 1"
  shows "layer_matrix b = translate_m (px (l_translation b) + px (l_position b))
                                      (py (l_translation b) + py (l_position b))"
  using assms by (simp add: layer_matrix_def Let_def geom_simps)

text \<open>
  C11: a scale greater than 1 is applied, about the centre of the layer: for
  a layer that is not rotated, with some scale factor above 1, every point
  of its content is scaled by the layer's factors about the centre of its
  bounds and then offset by position plus translation.
\<close>

theorem layer_matrix_scales_about_centre:
  assumes "\<not> l_do_rotation b" "1 < px (l_scale b) \<or> 1 < py (l_scale b)"
  shows "map_point (layer_matrix b) q =
         \<lparr>px = fw (l_size b) / 2 + px (l_scale b) * (px q - fw (l_size b) / 2)
                + px (l_translation b) + px (l_position b),
          py = fh (l_size b) / 2 + py (l_scale b) * (py q - fh (l_size b) / 2)
                + py (l_translation b) + py (l_position b)\<rparr>"
  using assms by (simp add: layer_matrix_def Let_def geom_simps algebra_simps field_simps)

text \<open>
  C12: a rotation is applied, about the anchor point: for a rotated layer
  whose scale factors are at most 1, every point of its content is rotated
  by the layer's angle (in degrees) about the anchor (the anchor fractions
  times the size) and then offset by position plus translation.
\<close>

theorem layer_matrix_rotates_about_anchor:
  assumes "l_do_rotation b" "px (l_scale b) \<le> 1" "py (l_scale b) \<le> 1"
  shows "map_point (layer_matrix b) q =
         (let ax = px (l_anchor b) * fw (l_size b); ay = py (l_anchor b) * fh (l_size b);
              r = l_angle b * pi / 180
          in \<lparr>px = ax + cos r * (px q - ax) - sin r * (py q - ay)
                    + px (l_translation b) + px (l_position b),
              py = ay + sin r * (px q - ax) + cos r * (py q - ay)
                    + py (l_translation b) + py (l_position b)\<rparr>)"
  using assms by (simp add: layer_matrix_def Let_def geom_simps rotate_m_def algebra_simps)

end
