(* ===== verification/PaintSpec.thy ===== *)
theory PaintSpec
  imports Paint
begin

text \<open>
  An abstract specification of the paint traversal, and the refinement of
  the traversal against it. The specification has no canvas stack, no draw
  filter object and no picture store updates: for a tree whose recordings
  are all current (every non-root layer with contents holds a live recording
  of its own truncated size, every root with contents holds none) it lists
  what is drawn, layer by layer in pre-order, each recorded command with the
  matrix, clip stack and opacity the spec's sections 4.6 and 4.7 compose:
  the clip of a clipping layer applies to itself and its subtree, the
  layer's own matrix to its content only, the translation by position plus
  translation to its children only, and the opacity of a layer is the
  product of the opacities above it times its own. The refinement lemma
  says that the stateful implementation leaves such a tree, the global
  state and the canvas state unchanged and appends exactly this list to the
  canvas output.
\<close>

section \<open>The specification\<close>

definition node_current :: "(pic_id \<Rightarrow> picture option) \<Rightarrow> sklayer \<Rightarrow> lprops \<Rightarrow> bool" where
  "node_current ps b p \<longleftrightarrow>
     (have_contents p \<longrightarrow>
        (if is_root p then recording p = None
         else (\<exists>r pic. recording p = Some r \<and> ps r = Some pic \<and>
                 pic_width pic = trunc_int (fw (l_size b)) \<and>
                 pic_height pic = trunc_int (fh (l_size b)))))"

definition paints_self :: "lprops \<Rightarrow> bool" where
  "paints_self p \<longleftrightarrow> have_contents p \<and> \<not> is_root p \<and> (have_image p \<or> draws_content p)"

definition clip_of :: "sklayer \<Rightarrow> rect" where
  "clip_of b =
     \<lparr>r_left = px (l_position b) + px (l_translation b),
      r_top = py (l_position b) + py (l_translation b),
      r_right = px (l_position b) + px (l_translation b) + fw (l_size b),
      r_bottom = py (l_position b) + py (l_translation b) + fh (l_size b)\<rparr>"

definition own_draws ::
  "rect option \<Rightarrow> real \<Rightarrow> cstate \<Rightarrow> (pic_id \<Rightarrow> picture option) \<Rightarrow> sklayer \<Rightarrow> lprops \<Rightarrow> drawn list" where
  "own_draws vp opacity s ps b p =
     (let co = canvas_opacity opacity b;
          fo = (if co \<noteq> 255 then Some co else filter_opacity s);
          m = mat_mul (cs_matrix s) (case calc_position vp b of Some m \<Rightarrow> m | None \<Rightarrow> layer_matrix b)
      in map (replay_prim m (cs_clips s) fo) (pic_ops (the (ps (the (recording p))))))"

primrec spec_out ::
    "rect option \<Rightarrow> real \<Rightarrow> cstate \<Rightarrow> (pic_id \<Rightarrow> picture option) \<Rightarrow> layer \<Rightarrow> drawn list"
  and spec_out_list ::
    "rect option \<Rightarrow> real \<Rightarrow> cstate \<Rightarrow> (pic_id \<Rightarrow> picture option) \<Rightarrow> layer list \<Rightarrow> drawn list" where
  "spec_out vp opacity s ps (Layer b p cs) =
     (let s1 = (if have_clip p then s\<lparr>cs_clips := (cs_matrix s, clip_of b) # cs_clips s\<rparr> else s);
          s2 = s1\<lparr>cs_matrix := pre_translate (cs_matrix s1)
                   (px (l_position b) + px (l_translation b)) (py (l_position b) + py (l_translation b))\<rparr>
      in (if paints_self p then own_draws vp opacity s1 ps b p else [])
         @ spec_out_list vp (opacity * l_opacity b) s2 ps cs)"
| "spec_out_list vp opacity s ps [] = []"
| "spec_out_list vp opacity s ps (t # ts) =
     spec_out vp opacity s ps t @ spec_out_list vp opacity s ps ts"

section \<open>paintMe on a current layer\<close>

lemma prepare_context_current:
  assumes "node_current (pics e) b p"
  shows "prepare_context False b p e = (p, e, have_contents p \<and> \<not> is_root p)"
proof (cases "have_contents p")
  case False
  then show ?thesis by (simp add: prepare_context_no_contents)
next
  case hc: True
  show ?thesis
  proof (cases "is_root p")
    case True
    with assms hc have "recording p = None" by (simp add: node_current_def)
    with hc True show ?thesis by (simp add: prepare_context_root_branch safe_unref_def)
  next
    case False
    with assms hc obtain r pic where "recording p = Some r" "pics e r = Some pic"
      "pic_width pic = trunc_int (fw (l_size b))" "pic_height pic = trunc_int (fh (l_size b))"
      by (auto simp: node_current_def)
    with hc False show ?thesis
      by (simp add: prepare_context_keep_branch pic_w_def pic_h_def deref_def)
  qed
qed

lemma canvas_out_eq:
  fixes c c' :: canvas
  shows "c_state c' = c_state c \<Longrightarrow> c_saved c' = c_saved c \<Longrightarrow> c' = c\<lparr>c_out := c_out c'\<rparr>"
  by (cases c; cases c') simp

lemma paint_me_current:
  assumes "node_current (pics e) b p"
  shows "paint_me vp opacity b p e c =
           (p, e, if paints_self p
                  then c\<lparr>c_out := c_out c @ own_draws vp opacity (c_state c) (pics e) b p\<rparr>
                  else c)"
proof -
  let ?c' = "snd (snd (paint_me vp opacity b p e c))"
  have pc: "prepare_context False b p e = (p, e, have_contents p \<and> \<not> is_root p)"
    by (rule prepare_context_current [OF assms])
  have st: "c_state ?c' = c_state c" "c_saved ?c' = c_saved c"
    by (rule paint_me_canvas)+
  have out: "c_out ?c' = c_out c @ (if paints_self p then own_draws vp opacity (c_state c) (pics e) b p else [])"
    by (auto simp: paint_me_def pc paints_self_def own_draws_def Let_def case_prod_unfold
        draw_picture_effect deref_def opacity_filter_new_def)
  have "?c' = (if paints_self p
                then c\<lparr>c_out := c_out c @ own_draws vp opacity (c_state c) (pics e) b p\<rparr> else c)"
    using canvas_out_eq [OF st] out by (cases "paints_self p") simp_all
  moreover have "fst (paint_me vp opacity b p e c) = p" "fst (snd (paint_me vp opacity b p e c)) = e"
    by (simp_all add: paint_me_layer paint_me_env pc)
  ultimately show ?thesis by (metis prod.collapse)
qed

section \<open>The traversal implements the specification\<close>

lemma spec_state_clip:
  "c_state (if have_clip p then set_clip b c else c) =
     (if have_clip p then (c_state c)\<lparr>cs_clips := (cs_matrix (c_state c), clip_of b) # cs_clips (c_state c)\<rparr>
      else c_state c)"
  "c_saved (if have_clip p then set_clip b c else c) = c_saved c"
  "c_out (if have_clip p then set_clip b c else c) = c_out c"
  by (simp_all add: set_clip_def clip_rect_def clip_of_def Let_def)

lemma paint_children_refines:
  "all_nodes (node_current (pics e)) t \<Longrightarrow>
     paint_children vp opacity t e c =
       (t, e, c\<lparr>c_out := c_out c @ spec_out vp opacity (c_state c) (pics e) t\<rparr>)"
  "list_all (all_nodes (node_current (pics e))) ts \<Longrightarrow>
     paint_list vp opacity ts e c =
       (ts, e, c\<lparr>c_out := c_out c @ spec_out_list vp opacity (c_state c) (pics e) ts\<rparr>)"
proof (induction t and ts arbitrary: opacity e c and opacity e c rule: layer_mutual_induct)
  case (1 b p cs)
  let ?c1 = "c\<lparr>c_saved := c_state c # c_saved c\<rparr>"
  let ?c2 = "if have_clip p then set_clip b ?c1 else ?c1"
  let ?c3 = "if paints_self p
             then ?c2\<lparr>c_out := c_out ?c2 @ own_draws vp opacity (c_state ?c2) (pics e) b p\<rparr> else ?c2"
  let ?c4 = "translate (px (l_position b) + px (l_translation b))
               (py (l_position b) + py (l_translation b)) ?c3"
  let ?o = "opacity * l_opacity b"
  have me: "paint_me vp opacity b p e ?c2 = (p, e, ?c3)"
    using "1.prems" by (simp add: paint_me_current)
  have ch: "paint_list vp ?o cs e ?c4 =
      (cs, e, ?c4\<lparr>c_out := c_out ?c4 @ spec_out_list vp ?o (c_state ?c4) (pics e) cs\<rparr>)"
    using "1.prems" by (simp add: "1.IH")
  let ?c5 = "?c4\<lparr>c_out := c_out ?c4 @ spec_out_list vp ?o (c_state ?c4) (pics e) cs\<rparr>"
  have run: "paint_children vp opacity (Layer b p cs) e c =
      (Layer b p cs, e, restore_to_count (save_count c) ?c5)"
    by (simp add: save_def me ch Let_def)
  have "c_saved ?c5 = c_state c # c_saved c"
    by (simp add: translate_def spec_state_clip)
  then have st: "c_state (restore_to_count (save_count c) ?c5) = c_state c"
      "c_saved (restore_to_count (save_count c) ?c5) = c_saved c"
    by (simp_all add: restore_to_count_saved)
  have out: "c_out ?c5 = c_out c @ spec_out vp opacity (c_state c) (pics e) (Layer b p cs)"
    by (cases "have_clip p") (simp_all add: translate_def spec_state_clip set_clip_def clip_rect_def clip_of_def Let_def)
  have "restore_to_count (save_count c) ?c5 =
      c\<lparr>c_out := c_out c @ spec_out vp opacity (c_state c) (pics e) (Layer b p cs)\<rparr>"
    using canvas_out_eq [OF st] out by (simp only: c_out_ops)
  then show ?case by (simp only: run)
next
  case 2
  then show ?case by simp
next
  case (3 t ts)
  let ?e0 = "e\<lparr>child_level := child_level e + 1\<rparr>"
  have "paint_children vp opacity t ?e0 c =
      (t, ?e0, c\<lparr>c_out := c_out c @ spec_out vp opacity (c_state c) (pics e) t\<rparr>)"
    using "3.prems" "3.IH"(1) [of ?e0] by simp
  then show ?case using "3.prems" "3.IH"(2) by (simp add: Let_def)
qed

end
