(* ===== verification/Animation.thy ===== *)
theory Animation
  imports LayerTree
begin

text \<open>
  The animation pass (LayerAndroid.cpp 85-120). \<open>evaluateAnimations(time)\<close>
  evaluates the children first, in order, then every animation of the layer
  in the map's iteration order; each evaluation counts one in
  \<open>gDebugNbAnims\<close> and may update the layer's animatable properties and the
  handle's own state (its start time). The result is whether any animation
  anywhere in the subtree reported that it is still running; every
  animation is evaluated, there is no early exit. \<open>evaluateAnimations()\<close>
  samples the clock once (here a parameter \<open>now\<close>) and resets the counter.
\<close>

section \<open>Definitions\<close>

text \<open>The loop over \<open>m_animations\<close> (lines 110-117), with its accumulator.\<close>

fun run_anims ::
  "real \<Rightarrow> keyframes \<Rightarrow> sklayer \<Rightarrow> int \<Rightarrow> bool \<Rightarrow> keyframes \<times> sklayer \<times> int \<times> bool" where
  "run_anims time [] l n running = ([], l, n, running)"
| "run_anims time ((k, a) # m) l n running =
     (let n' = n + 1;
          (a', l', r) = anim_evaluate a l time;
          (m', l'', n'', running') = run_anims time m l' n' (if r then True else running)
      in ((k, a') # m', l'', n'', running'))"

text \<open>\<open>evaluateAnimations(double time)\<close> (lines 103-120) and its loop over the children.\<close>

primrec eval_anims :: "real \<Rightarrow> layer \<Rightarrow> env \<Rightarrow> layer \<times> env \<times> bool"
  and eval_anims_list :: "real \<Rightarrow> layer list \<Rightarrow> bool \<Rightarrow> env \<Rightarrow> layer list \<times> env \<times> bool" where
  "eval_anims time (Layer b p cs) e =
     (let (cs', e1, running) = eval_anims_list time cs False e;
          (m', b', n', running') = run_anims time (animations p) b (nb_anims e1) running
      in (Layer b' (p\<lparr>animations := m'\<rparr>) cs', e1\<lparr>nb_anims := n'\<rparr>, running'))"
| "eval_anims_list time [] running e = ([], e, running)"
| "eval_anims_list time (c # cs) running e =
     (let (c', e1, r) = eval_anims time c e;
          (cs', e2, running') = eval_anims_list time cs (if r then True else running) e1
      in (c' # cs', e2, running'))"

text \<open>\<open>evaluateAnimations()\<close> (lines 87-92).\<close>

definition evaluate_animations :: "real \<Rightarrow> layer \<Rightarrow> env \<Rightarrow> layer \<times> env \<times> bool" where
  "evaluate_animations now t e = eval_anims now t (e\<lparr>nb_anims := 0\<rparr>)"

section \<open>The loop over one layer's animations\<close>

lemma run_anims_count:
  "fst (snd (snd (run_anims time m l n running))) = n + int (length m)"
proof (induction m arbitrary: l n running)
  case (Cons x m)
  then show ?case by (cases x) (simp add: Let_def case_prod_unfold)
qed simp

lemma run_anims_keys:
  "map fst (fst (run_anims time m l n running)) = map fst m"
proof (induction m arbitrary: l n running)
  case (Cons x m)
  then show ?case by (cases x) (simp add: Let_def case_prod_unfold)
qed simp

lemma run_anims_running_mono:
  "running \<Longrightarrow> snd (snd (snd (run_anims time m l n running)))"
proof (induction m arbitrary: l n running)
  case (Cons x m)
  then show ?case by (cases x) (simp add: Let_def case_prod_unfold)
qed simp

lemma run_anims_live:
  assumes "(k, a) \<in> set m" and "\<forall>x l. snd (anim_curve a x l)"
  shows "snd (snd (snd (run_anims time m l n running)))"
  using assms
proof (induction m arbitrary: l n running)
  case (Cons x m)
  obtain k' a' where x: "x = (k', a')" by (cases x)
  show ?case
  proof (cases "(k, a) = x")
    case True
    with Cons.prems x have "snd (snd (anim_evaluate a' l time))"
      by (simp add: anim_evaluate_def Let_def case_prod_unfold)
    with x show ?thesis by (simp add: Let_def case_prod_unfold run_anims_running_mono)
  next
    case False
    with Cons.prems(1) x have m: "(k, a) \<in> set m" by auto
    show ?thesis
      using Cons.IH [OF m Cons.prems(2)] x by (simp add: Let_def case_prod_unfold)
  qed
qed simp

section \<open>The pass over a tree\<close>

text \<open>
  The global state after the pass: only \<open>gDebugNbAnims\<close> changes, by the
  number of animations in the tree.
\<close>

lemma eval_anims_env:
  "fst (snd (eval_anims time t e)) = e\<lparr>nb_anims := nb_anims e + int (anim_count t)\<rparr>"
  "fst (snd (eval_anims_list time ts r e)) =
     e\<lparr>nb_anims := nb_anims e + int (sum_list (map anim_count ts))\<rparr>"
  by (induction t and ts arbitrary: e and r e rule: layer_mutual_induct)
     (simp_all add: Let_def case_prod_unfold run_anims_count algebra_simps)

lemma eval_anims_no_animations:
  "\<not> has_animations t \<Longrightarrow> eval_anims time t e = (t, e, False)"
  "\<not> has_animations_list ts \<Longrightarrow> eval_anims_list time ts r e = (ts, e, r)"
  by (induction t and ts arbitrary: e and r e rule: layer_mutual_induct)
     (simp_all add: Let_def case_prod_unfold split: if_splits)

lemma eval_anims_list_running_mono:
  "r \<Longrightarrow> snd (snd (eval_anims_list time ts r e))"
proof (induction ts arbitrary: r e)
  case (Cons c cs)
  then show ?case by (simp add: Let_def case_prod_unfold)
qed simp

lemma eval_anims_live:
  "ex_node (\<lambda>b p. \<exists>(k, a) \<in> set (animations p). \<forall>x l. snd (anim_curve a x l)) t \<Longrightarrow>
     snd (snd (eval_anims time t e))"
  "r \<or> (\<exists>c \<in> set ts. ex_node (\<lambda>b p. \<exists>(k, a) \<in> set (animations p).
      \<forall>x l. snd (anim_curve a x l)) c) \<Longrightarrow> snd (snd (eval_anims_list time ts r e))"
proof (induction t and ts arbitrary: e and r e rule: layer_mutual_induct)
  case (1 b p cs)
  show ?case
  proof (cases "\<exists>(k, a) \<in> set (animations p). \<forall>x l. snd (anim_curve a x l)")
    case True
    then show ?thesis by (auto simp: Let_def case_prod_unfold intro: run_anims_live)
  next
    case False
    with "1.prems" have "\<exists>c \<in> set cs. ex_node (\<lambda>b p. \<exists>(k, a) \<in> set (animations p).
        \<forall>x l. snd (anim_curve a x l)) c" by auto
    then have "snd (snd (eval_anims_list time cs False e))" using "1.IH" by blast
    then show ?thesis by (simp add: Let_def case_prod_unfold run_anims_running_mono)
  qed
next
  case 2
  then show ?case by simp
next
  case (3 c cs)
  show ?case
  proof (cases "r \<or> (\<exists>c \<in> set cs. ex_node (\<lambda>b p. \<exists>(k, a) \<in> set (animations p).
      \<forall>x l. snd (anim_curve a x l)) c)")
    case True
    then show ?thesis
      using "3.IH"(2) by (simp add: Let_def case_prod_unfold)
  next
    case False
    with "3.prems" have "snd (snd (eval_anims time c e))" using "3.IH"(1) by auto
    then show ?thesis by (simp add: Let_def case_prod_unfold eval_anims_list_running_mono)
  qed
qed

section \<open>Properties of evaluateAnimations()\<close>

text \<open>
  C20: \<open>evaluateAnimations()\<close> evaluates every animation of the tree exactly
  once: afterwards \<open>gDebugNbAnims\<close> is the number of animations in the tree,
  and nothing else of the global state (picture store, other counters) has
  changed.
\<close>

theorem evaluate_animations_counts:
  "fst (snd (evaluate_animations now t e)) = e\<lparr>nb_anims := int (anim_count t)\<rparr>"
  by (simp add: evaluate_animations_def eval_anims_env(1))

text \<open>
  C21: a tree without animations is left untouched by
  \<open>evaluateAnimations()\<close>, which reports that nothing is running (only the
  counter is reset).
\<close>

theorem evaluate_animations_idle:
  "\<not> has_animations t \<Longrightarrow> evaluate_animations now t e = (t, e\<lparr>nb_anims := 0\<rparr>, False)"
  by (simp add: evaluate_animations_def eval_anims_no_animations(1))

text \<open>
  C22: an animation anywhere in the tree whose curve reports that it is still
  running, at any elapsed time and on any layer state, makes
  \<open>evaluateAnimations()\<close> report that animations are running, so the caller
  schedules another frame.
\<close>

theorem evaluate_animations_live:
  assumes "ex_node (\<lambda>b p. \<exists>(k, a) \<in> set (animations p). \<forall>x l. snd (anim_curve a x l)) t"
  shows "snd (snd (evaluate_animations now t e))"
  using eval_anims_live(1) [OF assms] by (simp add: evaluate_animations_def)

end
