(* ===== verification/Dump.thy ===== *)
theory Dump
  imports LayerTree
begin

text \<open>
  The debug dumper (LayerAndroid.cpp 328-439). The file is the text written
  so far, and every write appends to it: \<open>lwrite\<close> appends a string,
  \<open>writeIndent\<close> the field \<open>"%*s"\<close> of width twice the level around a single
  space, and the typed writers one \<open>key = value;\<close> line each, printing
  integers as \<open>"%d"\<close> and floats as \<open>"%.3f"\<close> (\<open>"%.2f"\<close> for length values).
  \<open>dumpLayers\<close> writes one block per layer and recurses into the children
  between \<open>children = [\<close> and \<open>];\<close>, separated by \<open>, \<close> lines. Floats are the
  exact reals of the model; \<open>"%.Nf"\<close> rounds the value to N decimals, to
  even on an exact tie, as the C library's conversion does. Readers of the
  printed numbers (\<open>read_int\<close>, \<open>read_fixed\<close>) are not part of the code: they
  state what the printed text means.
\<close>

section \<open>printf conversions\<close>

definition digit_char :: "nat \<Rightarrow> char" where
  "digit_char d = ''0123456789'' ! d"

text \<open>\<open>"%u"\<close> of a natural number: its decimal digits, most significant first.\<close>

function string_of_nat :: "nat \<Rightarrow> string" where
  "string_of_nat n =
     (if n < 10 then [digit_char n] else string_of_nat (n div 10) @ [digit_char (n mod 10)])"
  by pat_completeness auto
termination by (relation "measure id") auto

declare string_of_nat.simps [simp del]

text \<open>\<open>"%d"\<close>: a minus sign before the digits of a negative value.\<close>

definition string_of_int :: "int \<Rightarrow> string" where
  "string_of_int i = (if i < 0 then CHR ''-'' # string_of_nat (nat (- i)) else string_of_nat (nat i))"

text \<open>Rounding to the nearest integer, ties to even (the default rounding mode).\<close>

definition round_half_even :: "real \<Rightarrow> int" where
  "round_half_even y =
     (let f = \<lfloor>y\<rfloor>; r = y - of_int f
      in if r < 1/2 then f else if 1/2 < r then f + 1 else if even f then f else f + 1)"

definition pad_zeros :: "nat \<Rightarrow> string \<Rightarrow> string" where
  "pad_zeros d s = replicate (d - length s) CHR ''0'' @ s"

text \<open>\<open>"%.Nf"\<close>: sign, integer part, and N decimals of the rounded magnitude.\<close>

definition fmt_fixed :: "nat \<Rightarrow> real \<Rightarrow> string" where
  "fmt_fixed d x =
     (let n = nat (round_half_even (\<bar>x\<bar> * 10 ^ d))
      in (if x < 0 then ''-'' else []) @ string_of_nat (n div 10 ^ d) @
         (if d = 0 then [] else CHR ''.'' # pad_zeros d (string_of_nat (n mod 10 ^ d))))"

text \<open>\<open>"%*s"\<close> with width \<open>w\<close>: right-justified, left-justified for a negative width.\<close>

definition pad_field :: "int \<Rightarrow> string \<Rightarrow> string" where
  "pad_field w s =
     (if 0 \<le> w then replicate (nat w - length s) CHR '' '' @ s
      else s @ replicate (nat (- w) - length s) CHR '' '')"

section \<open>Reading the printed numbers back\<close>

definition is_digit :: "char \<Rightarrow> bool" where
  "is_digit c \<longleftrightarrow> 48 \<le> (of_char c :: nat) \<and> (of_char c :: nat) \<le> 57"

definition digits_value :: "string \<Rightarrow> nat" where
  "digits_value s = foldl (\<lambda>a c. 10 * a + (of_char c - 48)) 0 s"

definition read_nat :: "string \<Rightarrow> nat option" where
  "read_nat s = (if s \<noteq> [] \<and> list_all is_digit s then Some (digits_value s) else None)"

definition read_int :: "string \<Rightarrow> int option" where
  "read_int s =
     (case s of c # r \<Rightarrow> if c = CHR ''-'' then map_option (\<lambda>n. - int n) (read_nat r)
                          else map_option int (read_nat s)
      | [] \<Rightarrow> None)"

definition read_unsigned :: "string \<Rightarrow> real option" where
  "read_unsigned s =
     (let ip = takeWhile (\<lambda>c. c \<noteq> CHR ''.'') s;
          fp = drop (Suc (length ip)) s
      in case (read_nat ip, read_nat fp) of
           (Some a, Some b) \<Rightarrow> Some (real a + real b / 10 ^ length fp)
         | _ \<Rightarrow> None)"

definition read_fixed :: "string \<Rightarrow> real option" where
  "read_fixed s =
     (case s of c # r \<Rightarrow> if c = CHR ''-'' then map_option uminus (read_unsigned r) else read_unsigned s
      | [] \<Rightarrow> None)"

section \<open>The writers (lines 354-401)\<close>

definition nl :: string where
  "nl = [CHR 0x0A]"

definition lwrite :: "string \<Rightarrow> string \<Rightarrow> string" where
  "lwrite file str = file @ str"

definition write_indent :: "string \<Rightarrow> int \<Rightarrow> string" where
  "write_indent file indent_level =
     (if indent_level \<noteq> 0 then lwrite file (pad_field (indent_level * 2) '' '') else file)"

definition writeln :: "string \<Rightarrow> int \<Rightarrow> string \<Rightarrow> string" where
  "writeln file indent_level str = lwrite (lwrite (write_indent file indent_level) str) nl"

definition write_int_val :: "string \<Rightarrow> int \<Rightarrow> string \<Rightarrow> int \<Rightarrow> string" where
  "write_int_val file indent_level str value =
     lwrite (write_indent file indent_level) (str @ '' = '' @ string_of_int value @ '';'' @ nl)"

definition write_float_val :: "string \<Rightarrow> int \<Rightarrow> string \<Rightarrow> real \<Rightarrow> string" where
  "write_float_val file indent_level str value =
     lwrite (write_indent file indent_level) (str @ '' = '' @ fmt_fixed 3 value @ '';'' @ nl)"

definition write_point :: "string \<Rightarrow> int \<Rightarrow> string \<Rightarrow> point \<Rightarrow> string" where
  "write_point file indent_level str pt =
     lwrite (write_indent file indent_level)
       (str @ '' = { x = '' @ fmt_fixed 3 (px pt) @ ''; y = '' @ fmt_fixed 3 (py pt) @ ''; };'' @ nl)"

definition write_size :: "string \<Rightarrow> int \<Rightarrow> string \<Rightarrow> fsize \<Rightarrow> string" where
  "write_size file indent_level str sz =
     lwrite (write_indent file indent_level)
       (str @ '' = { w = '' @ fmt_fixed 3 (fw sz) @ ''; h = '' @ fmt_fixed 3 (fh sz) @ ''; };'' @ nl)"

text \<open>
  The numeric code of a length type printed by \<open>writeLength\<close>: its position
  in \<open>SkLength::SkLengthType\<close> (Undefined, Auto, Relative, Percent, Fixed, ...).
\<close>

definition length_type_code :: "length_type \<Rightarrow> int" where
  "length_type_code t = (case t of Undefined \<Rightarrow> 0 | Percent \<Rightarrow> 3 | Fixed \<Rightarrow> 4)"

definition write_length :: "string \<Rightarrow> int \<Rightarrow> string \<Rightarrow> sklength \<Rightarrow> string" where
  "write_length file indent_level str l =
     (if \<not> len_defined l then file
      else lwrite (write_indent file indent_level)
             (str @ '' = { type = '' @ string_of_int (length_type_code (len_type l)) @
              ''; value = '' @ fmt_fixed 2 (len_value l) @ ''; };'' @ nl))"

section \<open>dumpLayers (lines 403-439)\<close>

text \<open>
  The loop over the children is \<open>dump_children\<close>, with the index \<open>i\<close> that
  decides the separator. The cast of \<open>getChild(i)\<close> to \<open>LayerAndroid*\<close> is
  never null here: every child of a layer of the model is a layer.
\<close>

fun dump_layers :: "string \<Rightarrow> int \<Rightarrow> layer \<Rightarrow> string"
  and dump_children :: "string \<Rightarrow> int \<Rightarrow> nat \<Rightarrow> layer list \<Rightarrow> string" where
  "dump_layers file indent_level (Layer b p cs) =
     (let f1 = writeln file indent_level ''{'';
          f2 = write_int_val f1 (indent_level + 1) ''haveContents'' (of_bool (have_contents p));
          f3 = write_int_val f2 (indent_level + 1) ''drawsContent'' (of_bool (draws_content p));
          f4 = write_int_val f3 (indent_level + 1) ''haveImage'' (of_bool (have_image p));
          f5 = write_int_val f4 (indent_level + 1) ''clipRect'' (of_bool (have_clip p));
          f6 = write_float_val f5 (indent_level + 1) ''opacity'' (l_opacity b);
          f7 = write_size f6 (indent_level + 1) ''size'' (l_size b);
          f8 = write_point f7 (indent_level + 1) ''position'' (l_position b);
          f9 = write_point f8 (indent_level + 1) ''translation'' (l_translation b);
          f10 = write_point f9 (indent_level + 1) ''anchor'' (l_anchor b);
          f11 = write_point f10 (indent_level + 1) ''scale'' (l_scale b);
          f12 = (if l_do_rotation b then write_float_val f11 (indent_level + 1) ''angle'' (l_angle b)
                 else f11);
          f13 = write_length f12 (indent_level + 1) ''fixedLeft'' (l_fixed_left b);
          f14 = write_length f13 (indent_level + 1) ''fixedTop'' (l_fixed_top b);
          f15 = write_length f14 (indent_level + 1) ''fixedRight'' (l_fixed_right b);
          f16 = write_length f15 (indent_level + 1) ''fixedBottom'' (l_fixed_bottom b);
          f17 = (if cs \<noteq> []
                 then writeln (dump_children (writeln f16 (indent_level + 1) ''children = ['')
                                 (indent_level + 1) 0 cs) (indent_level + 1) ''];''
                 else f16)
      in writeln f17 indent_level ''}'')"
| "dump_children file indent_level i [] = file"
| "dump_children file indent_level i (c # cs) =
     dump_children
       (dump_layers (if i > 0 then writeln file indent_level '', '' else file) indent_level c)
       indent_level (Suc i) cs"

section \<open>Well-nested output\<close>

text \<open>
  The matching of the brackets of the text: a stack of the open brackets,
  \<open>None\<close> at a closing bracket that does not match the innermost open one.
\<close>

fun scan :: "char list \<Rightarrow> string \<Rightarrow> char list option" where
  "scan st [] = Some st"
| "scan st (c # s) =
     (if c = CHR ''{'' \<or> c = CHR ''['' then scan (c # st) s
      else if c = CHR ''}'' then (if st \<noteq> [] \<and> hd st = CHR ''{'' then scan (tl st) s else None)
      else if c = CHR '']'' then (if st \<noteq> [] \<and> hd st = CHR ''['' then scan (tl st) s else None)
      else scan st s)"

definition flat :: "string \<Rightarrow> bool" where
  "flat s \<longleftrightarrow> (\<forall>c \<in> set s. c \<notin> {CHR ''{'', CHR ''['', CHR ''}'', CHR '']''})"

section \<open>The conversions read back\<close>

lemma of_char_digit_char: "d < 10 \<Longrightarrow> of_char (digit_char d) = 48 + d"
  by (auto simp: digit_char_def less_Suc_eq eval_nat_numeral)

lemma replicate_numeral_Cons: "replicate (numeral k) x = x # replicate (pred_numeral k) x"
  by (simp add: numeral_eq_Suc)

lemmas format_eval = string_of_int_def fmt_fixed_def round_half_even_def string_of_nat.simps
  digit_char_def pad_zeros_def replicate_numeral_Cons

lemma is_digit_digit_char [simp]: "d < 10 \<Longrightarrow> is_digit (digit_char d)"
  by (simp add: is_digit_def of_char_digit_char)

lemma string_of_nat_digits [simp]: "list_all is_digit (string_of_nat n)"
  by (induction n rule: string_of_nat.induct) (subst string_of_nat.simps; simp)

lemma string_of_nat_ne [simp]: "string_of_nat n \<noteq> []"
  by (subst string_of_nat.simps) simp

lemma digits_value_snoc: "digits_value (s @ [c]) = 10 * digits_value s + (of_char c - 48)"
  by (simp add: digits_value_def)

lemma digits_value_string_of_nat: "digits_value (string_of_nat n) = n"
proof (induction n rule: string_of_nat.induct)
  case (1 n)
  show ?case
  proof (cases "n < 10")
    case True
    then show ?thesis
      by (subst string_of_nat.simps) (simp add: digits_value_def of_char_digit_char)
  next
    case False
    then have "digits_value (string_of_nat n) =
        10 * digits_value (string_of_nat (n div 10)) + n mod 10"
      by (subst string_of_nat.simps) (simp add: digits_value_snoc of_char_digit_char)
    with 1 False show ?thesis by simp
  qed
qed

lemma read_nat_string_of_nat [simp]: "read_nat (string_of_nat n) = Some n"
  by (simp add: read_nat_def digits_value_string_of_nat)

lemma string_of_nat_hd: "\<exists>c r. string_of_nat n = c # r \<and> c \<noteq> CHR ''-''"
proof -
  obtain c r where cr: "string_of_nat n = c # r"
    using string_of_nat_ne by (cases "string_of_nat n") auto
  have "is_digit c" using string_of_nat_digits [of n] cr by simp
  then have "c \<noteq> CHR ''-''" by (auto simp: is_digit_def)
  with cr show ?thesis by blast
qed

lemma read_int_string_of_int: "read_int (string_of_int i) = Some i"
proof (cases "i < 0")
  case True
  then show ?thesis by (simp add: string_of_int_def read_int_def)
next
  case False
  obtain c r where cr: "string_of_nat (nat i) = c # r" and c: "c \<noteq> CHR ''-''"
    using string_of_nat_hd by blast
  have "read_int (c # r) = map_option int (read_nat (c # r))"
    using c by (simp add: read_int_def)
  with False cr show ?thesis by (simp add: string_of_int_def flip: cr)
qed

lemma round_half_even_bound: "\<bar>of_int (round_half_even y) - y\<bar> \<le> 1 / 2"
proof -
  have "of_int \<lfloor>y\<rfloor> \<le> y" "y < of_int \<lfloor>y\<rfloor> + 1" by linarith+
  then show ?thesis by (auto simp: round_half_even_def Let_def)
qed

lemma round_half_even_nonneg: "0 \<le> y \<Longrightarrow> 0 \<le> round_half_even y"
  by (auto simp: round_half_even_def Let_def)

lemma string_of_nat_length: "n < 10 ^ k \<Longrightarrow> 0 < k \<Longrightarrow> length (string_of_nat n) \<le> k"
proof (induction n arbitrary: k rule: string_of_nat.induct)
  case (1 n)
  show ?case
  proof (cases "n < 10")
    case True
    with "1.prems" show ?thesis by (subst string_of_nat.simps) simp
  next
    case False
    then obtain k' where k: "k = Suc k'" using "1.prems" by (cases k) auto
    with False "1.prems"(1) have "0 < k'" by (cases k') auto
    moreover have "n div 10 < 10 ^ k'" using "1.prems"(1) k by (simp add: less_mult_imp_div_less)
    ultimately have "length (string_of_nat (n div 10)) \<le> k'" using "1.IH" False by blast
    with False k show ?thesis by (subst string_of_nat.simps) simp
  qed
qed

lemma digits_value_zeros: "digits_value (replicate k CHR ''0'' @ s) = digits_value s"
proof -
  have "foldl (\<lambda>a c. 10 * a + (of_char c - 48)) 0 (replicate k CHR ''0'') = (0::nat)"
    by (induction k) simp_all
  then show ?thesis by (simp add: digits_value_def)
qed

lemma read_nat_pad:
  assumes "n < 10 ^ d" and "0 < d"
  shows "read_nat (pad_zeros d (string_of_nat n)) = Some n"
    and "length (pad_zeros d (string_of_nat n)) = d"
proof -
  have "length (string_of_nat n) \<le> d" by (rule string_of_nat_length [OF assms])
  then show "length (pad_zeros d (string_of_nat n)) = d" by (simp add: pad_zeros_def)
  have "list_all is_digit (replicate (d - length (string_of_nat n)) CHR ''0'')"
    by (simp add: list_all_iff is_digit_def)
  then show "read_nat (pad_zeros d (string_of_nat n)) = Some n"
    by (simp add: read_nat_def pad_zeros_def digits_value_zeros digits_value_string_of_nat)
qed

lemma takeWhile_string_of_nat:
  "takeWhile (\<lambda>c. c \<noteq> CHR ''.'') (string_of_nat n @ CHR ''.'' # r) = string_of_nat n"
proof -
  have "\<forall>c \<in> set (string_of_nat n). c \<noteq> CHR ''.''"
    using string_of_nat_digits [of n] by (auto simp: list_all_iff is_digit_def)
  then show ?thesis by (simp add: takeWhile_append2)
qed

lemma div_mod_real: "0 < m \<Longrightarrow> real (n div m) + real (n mod m) / real m = real n / real m"
proof -
  assume "0 < m"
  then have "real n = real (n div m) * real m + real (n mod m)"
    by (metis of_nat_add of_nat_mult div_mult_mod_eq)
  with \<open>0 < m\<close> show ?thesis by (simp add: field_simps)
qed

lemma read_unsigned_digits:
  "read_unsigned (string_of_nat a @ CHR ''.'' # fp) =
     map_option (\<lambda>b. real a + real b / 10 ^ length fp) (read_nat fp)"
  by (simp add: read_unsigned_def takeWhile_string_of_nat split: option.split)

lemma read_fixed_pos:
  "read_fixed (string_of_nat a @ CHR ''.'' # fp) = read_unsigned (string_of_nat a @ CHR ''.'' # fp)"
proof -
  obtain c r where cr: "string_of_nat a = c # r" and c: "c \<noteq> CHR ''-''"
    using string_of_nat_hd by blast
  show ?thesis using c by (simp add: read_fixed_def cr)
qed

lemma read_fixed_neg:
  "read_fixed (CHR ''-'' # s) = map_option uminus (read_unsigned s)"
  by (simp add: read_fixed_def)

lemma read_fixed_digits:
  assumes "0 < d"
  shows "read_fixed ((if neg then ''-'' else []) @ string_of_nat (n div 10 ^ d) @
            CHR ''.'' # pad_zeros d (string_of_nat (n mod 10 ^ d))) =
         Some ((if neg then -1 else 1) * (real n / 10 ^ d))"
proof -
  let ?fp = "pad_zeros d (string_of_nat (n mod 10 ^ d))"
  have fp: "read_nat ?fp = Some (n mod 10 ^ d)" "length ?fp = d"
    using read_nat_pad [of "n mod 10 ^ d" d] assms by simp_all
  have val: "real (n div 10 ^ d) + real (n mod 10 ^ d) / 10 ^ d = real n / 10 ^ d"
    using div_mod_real [of "10 ^ d" n] by simp
  have "read_unsigned (string_of_nat (n div 10 ^ d) @ CHR ''.'' # ?fp) = Some (real n / 10 ^ d)"
    by (simp only: read_unsigned_digits fp val option.map)
  then show ?thesis
    by (cases neg) (simp_all add: read_fixed_pos read_fixed_neg)
qed

lemma read_fixed_fmt_fixed:
  assumes "0 < d"
  shows "read_fixed (fmt_fixed d x) =
           Some ((if x < 0 then -1 else 1) * (real (nat (round_half_even (\<bar>x\<bar> * 10 ^ d))) / 10 ^ d))"
proof -
  let ?n = "nat (round_half_even (\<bar>x\<bar> * 10 ^ d))"
  have "fmt_fixed d x = (if x < 0 then ''-'' else []) @ string_of_nat (?n div 10 ^ d) @
      CHR ''.'' # pad_zeros d (string_of_nat (?n mod 10 ^ d))"
    using assms by (simp add: fmt_fixed_def Let_def)
  then show ?thesis by (simp only: read_fixed_digits [OF assms])
qed

lemma scaled_bound:
  fixes r z p :: real
  assumes "\<bar>r - z\<bar> \<le> 1 / 2" and "0 < p"
  shows "\<bar>r / p - z / p\<bar> \<le> 1 / (2 * p)"
proof -
  have "\<bar>r / p - z / p\<bar> = \<bar>r - z\<bar> / p"
    using assms(2) by (simp add: diff_divide_distrib [symmetric] abs_divide)
  also have "\<dots> \<le> (1 / 2) / p" using assms by (intro divide_right_mono) auto
  finally show ?thesis by simp
qed

lemma fmt_fixed_value_bound:
  "\<bar>(if x < 0 then -1 else 1) * (real (nat (round_half_even (\<bar>x\<bar> * 10 ^ d))) / 10 ^ d) - x\<bar>
     \<le> 1 / (2 * 10 ^ d)"
proof -
  let ?z = "\<bar>x\<bar> * 10 ^ d" and ?p = "(10::real) ^ d"
  let ?r = "real (nat (round_half_even ?z))"
  have "0 \<le> round_half_even ?z" by (rule round_half_even_nonneg) simp
  then have "?r = of_int (round_half_even ?z)" by simp
  then have "\<bar>?r - ?z\<bar> \<le> 1 / 2" using round_half_even_bound [of ?z] by simp
  then have b: "\<bar>?r / ?p - \<bar>x\<bar>\<bar> \<le> 1 / (2 * ?p)"
    using scaled_bound [of ?r ?z ?p] by simp
  show ?thesis
  proof (cases "x < 0")
    case True
    then have "\<bar>(if x < 0 then -1 else 1) * (?r / ?p) - x\<bar> = \<bar>?r / ?p - \<bar>x\<bar>\<bar>" by simp
    with b show ?thesis by simp
  next
    case False
    then have "\<bar>(if x < 0 then -1 else 1) * (?r / ?p) - x\<bar> = \<bar>?r / ?p - \<bar>x\<bar>\<bar>" by simp
    with b show ?thesis by simp
  qed
qed
section \<open>The dump is well nested\<close>

lemma scan_append: "scan st (s @ t) = (case scan st s of None \<Rightarrow> None | Some st' \<Rightarrow> scan st' t)"
  by (induction st s rule: scan.induct) auto

lemma scan_flat: "flat s \<Longrightarrow> scan st s = Some st"
  by (induction st s rule: scan.induct) (auto simp: flat_def)

lemma flat_append [simp]: "flat (s @ t) \<longleftrightarrow> flat s \<and> flat t"
  by (auto simp: flat_def)

lemma flat_Cons [simp]: "flat (c # s) \<longleftrightarrow> c \<notin> {CHR ''{'', CHR ''['', CHR ''}'', CHR '']''} \<and> flat s"
  by (auto simp: flat_def)

lemma flat_Nil [simp]: "flat []"
  by (simp add: flat_def)

lemma flat_digits: "list_all is_digit s \<Longrightarrow> flat s"
  by (auto simp: flat_def list_all_iff is_digit_def)

lemma flat_string_of_nat [simp]: "flat (string_of_nat n)"
  by (rule flat_digits) simp

lemma flat_replicate [simp]: "flat (replicate k c) \<longleftrightarrow> k = 0 \<or> c \<notin> {CHR ''{'', CHR ''['', CHR ''}'', CHR '']''}"
  by (auto simp: flat_def)

lemma flat_conversions [simp]:
  "flat (string_of_int i)" "flat (fmt_fixed d x)" "flat (pad_field w '' '')" "flat nl"
  by (simp_all add: string_of_int_def fmt_fixed_def Let_def pad_zeros_def pad_field_def nl_def)

lemma scan_append_bind: "scan st (s @ t) = Option.bind (scan st s) (\<lambda>st'. scan st' t)"
  by (simp add: scan_append split: option.split)

lemma scan_flat_prefix: "flat x \<Longrightarrow> scan st (x @ t) = scan st t"
  by (simp add: scan_append scan_flat)

lemma bind_Some_right [simp]: "Option.bind x Some = x"
  by (cases x) simp_all

lemmas scan_simps = scan_append_bind scan_flat_prefix scan_flat

lemmas writer_defs = lwrite_def write_indent_def writeln_def write_int_val_def write_float_val_def
  write_point_def write_size_def write_length_def

lemma scan_writers [simp]:
  "flat k \<Longrightarrow> scan st (write_int_val f i k v) = scan st f"
  "flat k \<Longrightarrow> scan st (write_float_val f i k x) = scan st f"
  "flat k \<Longrightarrow> scan st (write_point f i k pt) = scan st f"
  "flat k \<Longrightarrow> scan st (write_size f i k sz) = scan st f"
  "flat k \<Longrightarrow> scan st (write_length f i k l) = scan st f"
  "flat k \<Longrightarrow> scan st (writeln f i k) = scan st f"
  by (simp_all add: writer_defs scan_simps)

lemma scan_dump:
  "scan st (dump_layers f i t) = scan st f"
  "scan st (dump_children f i n ts) = scan st f"
proof (induction t and ts arbitrary: f i st and f i n st rule: layer_mutual_induct)
  case (1 b p cs)
  then show ?case
    by (simp add: Let_def writeln_def lwrite_def write_indent_def scan_simps)
qed simp_all

section \<open>Properties of the dump\<close>

text \<open>
  C25: the dump of any tree at any level is well nested (spec 4.9): every
  \<open>{\<close> and \<open>[\<close> it writes is closed by the matching \<open>}\<close> or \<open>]\<close>, in order,
  and it closes nothing it did not open.
\<close>

theorem dump_layers_well_nested: "scan [] (dump_layers [] indent_level t) = Some []"
  by (simp add: scan_dump(1))

lemma fmt_fixed_reads_back:
  assumes "0 < d"
  shows "\<exists>y. read_fixed (fmt_fixed d x) = Some y \<and> \<bar>y - x\<bar> \<le> 1 / (2 * 10 ^ d)"
  using read_fixed_fmt_fixed [OF assms, of x] fmt_fixed_value_bound [of x d] by blast

text \<open>
  C26: \<open>writeFloatVal\<close> loses at most half a unit of the third decimal: the
  line it appends is \<open>key = s;\<close>, and the number \<open>s\<close> reads back as a value
  within 0.0005 of the float.
\<close>

theorem write_float_val_reads_back:
  "\<exists>s y. write_float_val f i k x = write_indent f i @ k @ '' = '' @ s @ '';'' @ nl \<and>
         read_fixed s = Some y \<and> \<bar>y - x\<bar> \<le> 1 / 2000"
proof -
  obtain y where "read_fixed (fmt_fixed 3 x) = Some y" "\<bar>y - x\<bar> \<le> 1 / (2 * 10 ^ 3)"
    using fmt_fixed_reads_back [of 3 x] by auto
  then show ?thesis by (auto simp: write_float_val_def lwrite_def)
qed

text \<open>
  C27: \<open>writeIntVal\<close> prints the int exactly: the line it appends is
  \<open>key = s;\<close>, and \<open>s\<close>, read as an optional minus sign followed by
  decimal digits, is the value.
\<close>

theorem write_int_val_reads_back:
  "\<exists>s. write_int_val f i k v = write_indent f i @ k @ '' = '' @ s @ '';'' @ nl \<and>
        read_int s = Some v"
  using read_int_string_of_int [of v] by (auto simp: write_int_val_def lwrite_def)

end
