(* ===== verification/Spec2Isabelle.thy ===== *)
theory Spec2Isabelle
  imports PaintSpec Animation Dump
begin

text \<open>
  \<^bold>\<open>A verification development of LayerAndroid\<close>
  (src/WebCore/platform/graphics/android/LayerAndroid.cpp, the accelerated
  compositing layer tree of the Android WebKit port).

  \<^bold>\<open>The program.\<close> A \<open>LayerAndroid\<close> is a node of a tree of layers. Each node
  carries the geometry of its base class \<open>SkLayer\<close> (size, position,
  translation, anchor, scale, rotation, opacity, fixed-position lengths), the
  flags of LayerAndroid (root, contents, image, clip), a shared reference to
  a recorded picture (\<open>SkPicture\<close>) and a hash map of animations, and owns
  its children. Before a frame, \<open>evaluateAnimations\<close> lets every animation
  update its layer; then \<open>draw\<close> walks the tree (\<open>paintChildren\<close>,
  \<open>paintMe\<close>), keeping the recording of every layer up to date
  (\<open>prepareContext\<close>) and replaying it onto the canvas with the composed
  matrix, clip and opacity. The copy constructor deep-copies a tree and
  shares its recordings; the destructor releases them. \<open>dumpLayers\<close> writes a
  textual dump.

  \<^bold>\<open>The theories.\<close>
  \<^item> \<open>Prelude\<close>: shared types (\<open>scalar\<close> = real, \<open>pic_id\<close>, \<open>alpha\<close> = 8 word),
    the C cast \<open>trunc_int\<close>, multisets of references.
  \<^item> \<open>Geometry\<close>: \<open>SkPoint\<close>, \<open>SkSize\<close>, \<open>SkRect\<close>, \<open>SkLength\<close>
    (\<open>calc_float_value\<close>) and the affine \<open>SkMatrix\<close> operations used by the
    file (\<open>pre_translate\<close>, \<open>pre_rotate\<close>, \<open>pre_scale\<close>, \<open>post_translate\<close>,
    \<open>mat_mul\<close> for \<open>concat\<close>), with how they act on points.
  \<^item> \<open>Picture\<close>: the store of reference-counted pictures (\<open>new_picture\<close>,
    \<open>safe_ref\<close>, \<open>safe_unref\<close>, \<open>deref\<close>, the layout engine's
    \<open>engine_record\<close>) and the invariant \<open>store_ok R st\<close>: the reference counts
    are exactly the multiset \<open>R\<close> of references the layers hold.
  \<^item> \<open>Canvas\<close>: \<open>OpacityDrawFilter\<close> (lines 28-44: \<open>odf_filter\<close>,
    \<open>odf_restore\<close>) and a capturing \<open>SkCanvas\<close> (\<open>save\<close>,
    \<open>restore_to_count\<close>, \<open>clip_rect\<close>, \<open>translate\<close>, \<open>concat\<close>,
    \<open>set_draw_filter\<close>, \<open>draw_picture\<close>) whose output lists every replayed
    command with the matrix, clip and alpha in effect.
  \<^item> \<open>Layer\<close>: the node state (\<open>sklayer\<close>, \<open>lprops\<close>, the datatype \<open>layer\<close>),
    the global state \<open>env\<close> (store and the counters
    \<open>gDebugLayerAndroidInstances\<close>, \<open>gDebugNbAnims\<close>, \<open>gDebugChildLevel\<close>),
    the constructor (\<open>layer_new\<close>, lines 46-55), \<open>prepare_context\<close>
    (308-327) and \<open>record_context\<close> (301-306), with one lemma per branch of
    \<open>prepareContext\<close> and the preservation of \<open>store_ok\<close>.
  \<^item> \<open>LayerTree\<close>: the copy constructor (\<open>copy_layer\<close>, 57-75), the destructor
    (\<open>destroy_layer\<close>, 77-83), \<open>has_animations\<close> (94-101),
    \<open>set_draws_content\<close> (132-139), the mask, clip and background setters
    (143-160), the animation map (\<open>hm_add\<close>, \<open>add_animation\<close>,
    \<open>remove_animation\<close>, 122-130). Loops over the children are mutual
    \<^theory_text>\<open>primrec\<close>s on the child list; \<open>layer_mutual_induct\<close> is
    their induction rule.
  \<^item> \<open>Paint\<close>: \<open>set_clip\<close> (170-178), \<open>calc_position\<close> (205-229),
    \<open>layer_matrix\<close> and \<open>canvas_opacity\<close> (the parts of \<open>paintMe\<close>),
    \<open>paint_me\<close> (231-299), \<open>paint_children\<close> (180-203) and \<open>draw\<close> (164-168),
    with the lemmas that the canvas state and save stack are restored, that
    \<open>gDebugChildLevel\<close> returns to its value, that the reference counts stay
    exact, and that only recordings change.
  \<^item> \<open>PaintSpec\<close>: the abstract specification of the composition,
    \<open>spec_out\<close>: for a tree whose recordings are current (\<open>node_current\<close>),
    the flat list of drawn commands in pre-order, each with the matrix, clip
    stack and opacity its ancestors compose (spec 4.6, 4.7), with no canvas
    stack, filter object or store update; and the refinement lemma
    \<open>paint_children_refines\<close>: the stateful traversal leaves such a tree,
    the global state and the canvas state unchanged and appends exactly
    \<open>spec_out\<close> to the canvas output.
  \<^item> \<open>Animation\<close>: \<open>evaluateAnimations\<close> (85-120): \<open>run_anims\<close> (the loop
    over one layer's map), \<open>eval_anims\<close> (children first) and
    \<open>evaluate_animations\<close> (the counter reset), with the count of
    evaluations, the idle case and liveness.
  \<^item> \<open>Dump\<close>: the debug dumper (328-439): the writers \<open>lwrite\<close>,
    \<open>write_indent\<close>, \<open>writeln\<close>, \<open>write_int_val\<close>, \<open>write_float_val\<close>,
    \<open>write_point\<close>, \<open>write_size\<close>, \<open>write_length\<close> and \<open>dump_layers\<close> with
    its child loop \<open>dump_children\<close>; the file is the text written so far.
    The \<open>fprintf\<close> conversions (\<open>%d\<close>, \<open>%.3f\<close>, \<open>%.2f\<close>, \<open>%*s\<close>) are
    modelled from the C library: \<open>string_of_int\<close>, \<open>fmt_fixed\<close> (round to
    nearest, ties to even), \<open>pad_field\<close>. Readers of the printed numbers
    and a bracket matcher (\<open>scan\<close>) state what the text means: integers
    read back exactly, fixed-point numbers within half a unit of the last
    decimal, and every dump is well nested.
  \<^item> This theory: the properties of the public entry points and the
    refinement of \<open>draw\<close> against \<open>spec_out\<close>, with witnesses on trees that
    hold a picture (\<open>picture_tree\<close>; \<open>resized_tree\<close>, whose stale recording
    \<open>draw\<close> frees and replaces).

  \<^bold>\<open>Modelling choices.\<close> Floats are exact reals (rounding is not
  modelled; the casts to \<open>int\<close> are). Every mutating method is a function
  returning the new layer and the new global state; the canvas is passed and
  returned explicitly. Pointers to pictures are addresses into the store,
  so that sharing between copies and the effect of \<open>safeUnref\<close> on other
  owners are visible. Reading a freed picture is undefined behaviour in C++;
  \<open>deref\<close> then yields an unspecified value, and the invariant \<open>store_ok\<close>
  shows no reachable read is of a freed picture. Every traversal is
  structural recursion on the finite tree, so no fuel is needed. The
  hash map of animations is an association list in iteration order; its
  \<open>add\<close> keeps an existing entry. The graphics library (\<open>SkLayer\<close>,
  \<open>SkCanvas\<close>, \<open>SkMatrix\<close>, \<open>SkPicture\<close>, \<open>SkLength\<close>) and the animation
  handles (\<open>AndroidAnimation\<close>) are not in the repository; their operations
  are modelled from the specification's description of the interface.

  \<^bold>\<open>Findings.\<close> The scenarios of spec 8.3 show three disagreements
  with the code, recorded in the manifest: the filter alpha of stacked
  opacities is truncated (63 for 0.5 * 0.5, where the spec expects 64; the
  witness of \<open>draw_refines_spec\<close> computes it); by \<open>spec_out\<close>, a fixed-position
  layer's \<open>calcPosition\<close> matrix is
  concatenated onto the canvas its ancestors have already translated (a
  child of a layer at (500, 500) is drawn at (510, 520), not (10, 20)); and
  a recording handed out after a resize is 0 wide until the layout engine
  records into it (\<open>prepare_context_fresh_recording\<close>). The numeric code the
  dump prints for a length's type is that of the \<open>SkLengthType\<close>
  enumeration of the graphics library (Undefined 0, Percent 3, Fixed 4),
  which the spec does not fix.

  \<^bold>\<open>Not modelled.\<close> Bytes on a \<open>FILE\<close> other than as the text written,
  and write errors of \<open>fwrite\<close>, the \<open>LAYER_DEBUG\<close> diagonals (compiled
  out), the commented-out background paint (\<open>FIXME\<close>), IEEE rounding, and
  the wall clock (\<open>WTF::currentTime\<close> is a parameter).
\<close>

section \<open>Concrete states for the witnesses\<close>

text \<open>An empty picture store and zeroed counters, as at process start.\<close>

definition env0 :: env where
  "env0 = \<lparr>pics = Map.empty, next_pic = 0, instances = 0, nb_anims = 0, child_level = 0\<rparr>"

text \<open>A layer of size 100 x 50 at (10, 20), and the properties of a content layer.\<close>

definition box :: sklayer where
  "box = default_sklayer\<lparr>l_size := \<lparr>fw = 100, fh = 50\<rparr>, l_position := \<lparr>px = 10, py = 20\<rparr>\<rparr>"

definition content_props :: lprops where
  "content_props =
     \<lparr>is_root = False, have_contents = True, draws_content = True, have_image = False,
      have_clip = False, recording = None, animations = [], bg_color = 0, bg_color_set = False\<rparr>"

text \<open>An animation that always reports that it is running.\<close>

definition running_anim :: anim where
  "running_anim = \<lparr>anim_name = ''fade'', anim_begin = None, anim_curve = (\<lambda>x l. (l, True))\<rparr>"

text \<open>
  Trees that hold a picture: picture 0 is a recording of one rectangle
  filling a 100 x 50 layer, with one reference. \<open>picture_tree\<close> is a root
  without contents over a 100 x 50 layer holding picture 0 (its recording is
  current); in \<open>resized_tree\<close> the same layer has been resized to 200 x 50,
  so painting it frees picture 0 and allocates a fresh recording;
  \<open>scene_stack\<close> nests the layer, at opacity 0.5, under a container of
  opacity 0.5.
\<close>

definition full_rect :: rect where
  "full_rect = \<lparr>r_left = 0, r_top = 0, r_right = 100, r_bottom = 50\<rparr>"

definition red_picture :: picture where
  "red_picture = \<lparr>pic_width = 100, pic_height = 50, pic_ops = [DrawRect full_rect 255], pic_refcnt = 1\<rparr>"

definition env1 :: env where
  "env1 = env0\<lparr>pics := [0 \<mapsto> red_picture], next_pic := 1\<rparr>"

definition recorded_props :: lprops where
  "recorded_props = content_props\<lparr>recording := Some 0\<rparr>"

definition container_props :: lprops where
  "container_props = content_props\<lparr>have_contents := False\<rparr>"

definition root_props :: lprops where
  "root_props = container_props\<lparr>is_root := True\<rparr>"

definition picture_tree :: layer where
  "picture_tree = Layer default_sklayer root_props [Layer box recorded_props []]"

definition resized_tree :: layer where
  "resized_tree = Layer default_sklayer root_props
     [Layer (box\<lparr>l_size := \<lparr>fw = 200, fh = 50\<rparr>\<rparr>) recorded_props []]"

definition scene_stack :: layer where
  "scene_stack = Layer default_sklayer root_props
     [Layer (default_sklayer\<lparr>l_opacity := 1/2\<rparr>) container_props
        [Layer (box\<lparr>l_opacity := 1/2\<rparr>) recorded_props []]]"

lemmas example_defs = env0_def box_def content_props_def running_anim_def default_sklayer_def

lemmas scene_defs = full_rect_def red_picture_def env1_def recorded_props_def container_props_def
  root_props_def picture_tree_def resized_tree_def scene_stack_def

lemma env1_store_ok: "store_ok {#0#} env1"
proof (rule store_okI)
  fix q
  show "count {#0#} q = (case pics env1 q of None \<Rightarrow> 0 | Some pic \<Rightarrow> pic_refcnt pic)"
    by (cases "q = 0") (simp_all add: scene_defs example_defs)
next
  fix q pic
  assume "pics env1 q = Some pic"
  then show "0 < pic_refcnt pic \<and> q < next_pic env1"
    by (cases "q = 0") (auto simp: scene_defs example_defs)
qed

lemma refs_picture_trees: "refs picture_tree = {#0#}" "refs resized_tree = {#0#}"
  by (simp_all add: scene_defs example_defs)

section \<open>Painting a tree\<close>

text \<open>
  C1: \<open>draw\<close> implements the specification of the composition. On a tree
  whose recordings are current (each layer with contents other than the root
  holds a live recording of its truncated size, a root holds none), \<open>draw\<close>
  returns the tree and the picture store unchanged, leaves the canvas state
  as it found it, and appends to the canvas output exactly the list
  \<open>spec_out\<close>: every recorded command of every layer that draws, in
  pre-order, under the matrix, clip stack and opacity that its ancestors'
  positions, clips and opacities compose (spec 4.6, 4.7).
\<close>

theorem draw_refines_spec:
  assumes "all_nodes (node_current (pics e)) t"
  shows "draw c vp t e =
           (t, e\<lparr>child_level := 0\<rparr>, c\<lparr>c_out := c_out c @ spec_out vp 1 (c_state c) (pics e) t\<rparr>)"
  using paint_children_refines(1) [of "e\<lparr>child_level := 0\<rparr>" t vp 1 c] assms by (simp add: draw_def)

text \<open>
  C2: \<open>draw\<close> leaves the canvas as it found it: its current matrix, clip stack
  and draw filter, and its stack of saved states, are those it had before
  the traversal; painting only appends to what the canvas drew.
\<close>

theorem draw_restores_canvas:
  "c_state (snd (snd (draw c vp t e))) = c_state c \<and>
   c_saved (snd (snd (draw c vp t e))) = c_saved c"
  by (simp add: draw_def paint_children_canvas(1))

text \<open>
  C3: painting keeps the reference counts of the shared recordings exact.
  If the counts match the references held by the tree and by other owners
  \<open>C\<close> before \<open>draw\<close>, they match the references of the tree \<open>draw\<close> returns
  (where \<open>prepareContext\<close> may have replaced recordings) and \<open>C\<close> after it:
  no recording is freed while referenced and none is leaked.
\<close>

theorem draw_keeps_refcounts:
  assumes "store_ok (C + refs t) e"
  shows "store_ok (C + refs (fst (draw c vp t e))) (fst (snd (draw c vp t e)))"
  using assms by (simp add: draw_def paint_children_store_ok(1))

theorem draw_keeps_refcounts_witness:
  "store_ok ({#} + refs resized_tree) env1 \<and>
   store_ok ({#} + refs (fst (draw new_canvas None resized_tree env1)))
     (fst (snd (draw new_canvas None resized_tree env1)))"
proof -
  have h: "store_ok ({#} + refs resized_tree) env1"
    by (simp add: refs_picture_trees env1_store_ok)
  show ?thesis using h draw_keeps_refcounts [OF h] by blast
qed

text \<open>
  C19: constructions and destructions balance: copying a tree and destroying
  the copy returns the instance counter to its value and the reference
  counts to exact for the original tree.
\<close>

theorem copy_then_destroy_balanced:
  assumes "store_ok (C + refs t) e"
  shows "instances (destroy_layer (fst (copy_layer t e)) (snd (copy_layer t e))) = instances e \<and>
         store_ok (C + refs t) (destroy_layer (fst (copy_layer t e)) (snd (copy_layer t e)))"
proof -
  let ?t' = "fst (copy_layer t e)" and ?e' = "snd (copy_layer t e)"
  have r: "refs ?t' = refs t" by (simp add: copy_layer_fst(1) refs_map_own(1))
  have n: "node_count ?t' = node_count t" by (simp add: copy_layer_fst(1) node_count_map_own(1))
  have "store_ok ((C + refs t) + refs ?t') ?e'" using copy_layer_store_ok(1) [OF assms] r by simp
  then have "store_ok (C + refs t) (destroy_layer ?t' ?e')" by (rule destroy_layer_store_ok(1))
  moreover have "instances (destroy_layer ?t' ?e') = instances e"
    by (simp add: destroy_layer_instances(1) copy_layer_instances(1) n)
  ultimately show ?thesis by simp
qed

text \<open>
  C23: \<open>draw\<close> resets \<open>gDebugChildLevel\<close> and every level of the recursion
  undoes its increments: after the traversal the level is 0 again.
\<close>

theorem draw_resets_child_level:
  "child_level (fst (snd (draw c vp t e))) = 0"
  by (simp add: draw_def paint_children_child_level(1))

text \<open>
  C24: painting changes no property of any layer other than its recording:
  with the recordings erased, the tree \<open>draw\<close> returns is the tree it was given.
\<close>

theorem draw_changes_only_recordings:
  "strip_recordings (fst (draw c vp t e)) = strip_recordings t"
  by (simp add: draw_def paint_children_frame(1))

section \<open>Witnesses: the hypotheses of the properties hold at concrete states\<close>

theorem draw_refines_spec_witness:
  "all_nodes (node_current (pics env1)) scene_stack \<and>
   draw new_canvas None scene_stack env1 =
     (scene_stack, env1\<lparr>child_level := 0\<rparr>,
      new_canvas\<lparr>c_out := c_out new_canvas @ spec_out None 1 (c_state new_canvas) (pics env1) scene_stack\<rparr>) \<and>
   spec_out None 1 (c_state new_canvas) (pics env1) scene_stack =
     [Drawn full_rect 63 (translate_m 10 20) []]"
proof -
  have cur: "all_nodes (node_current (pics env1)) scene_stack"
    by (simp add: scene_defs node_current_def example_defs)
  have fl: "trunc_int (1 / 2 * (1 / 2) * 255 :: real) = 63"
    by (simp add: trunc_int_def floor_eq_iff)
  have "spec_out None 1 (c_state new_canvas) (pics env1) scene_stack =
      [Drawn full_rect 63 (translate_m 10 20) []]"
    by (simp add: scene_defs example_defs own_draws_def paints_self_def canvas_opacity_def
        layer_matrix_def calc_position_def new_canvas_def initial_cstate_def filter_opacity_def
        geom_simps fl)
  then show ?thesis using cur draw_refines_spec [OF cur] by blast
qed

theorem paint_me_replays_live_picture_witness:
  "\<exists>r pic. recording (fst (prepare_context False box content_props env0)) = Some r \<and>
     pics (fst (snd (prepare_context False box content_props env0))) r = Some pic \<and>
     deref (fst (snd (prepare_context False box content_props env0))) r = pic"
proof -
  have ok: "store_ok ({#} + mset_opt (recording content_props)) env0"
    by (simp add: store_ok_def example_defs)
  have pc: "prepare_context False box content_props env0 =
      (fst (prepare_context False box content_props env0),
       fst (snd (prepare_context False box content_props env0)), True)"
    by (simp add: prod_eq_iff prepare_context_def new_picture_def safe_unref_def example_defs)
  show ?thesis by (rule paint_me_replays_live_picture [OF ok pc])
qed

theorem prepare_context_fresh_recording_witness:
  "snd (snd (prepare_context True box content_props env0)) \<and>
   (\<exists>r. recording (fst (prepare_context True box content_props env0)) = Some r \<and>
        r \<notin># {#} + mset_opt (recording content_props) \<and>
        pics (fst (snd (prepare_context True box content_props env0))) r = Some empty_picture)"
proof (rule prepare_context_fresh_recording)
  show "have_contents content_props" "\<not> is_root content_props"
    by (simp_all add: content_props_def)
  show "store_ok ({#} + mset_opt (recording content_props)) env0"
    by (simp add: store_ok_def example_defs)
  show "True \<or> recording content_props = None \<or>
     (\<exists>r. recording content_props = Some r \<and>
          (pic_w env0 r \<noteq> trunc_int (fw (l_size box)) \<or> pic_h env0 r \<noteq> trunc_int (fh (l_size box))))"
    by simp
qed simp

theorem prepare_context_stable_after_recording_witness:
  "prepare_context False box (fst (record_context box content_props env0))
     (engine_record 0 100 50 [DrawRect \<lparr>r_left = 0, r_top = 0, r_right = 100, r_bottom = 50\<rparr> 255]
        (fst (snd (record_context box content_props env0)))) =
   (fst (record_context box content_props env0),
    engine_record 0 100 50 [DrawRect \<lparr>r_left = 0, r_top = 0, r_right = 100, r_bottom = 50\<rparr> 255]
      (fst (snd (record_context box content_props env0))), True)"
proof -
  have rc: "record_context box content_props env0 =
      (fst (record_context box content_props env0), fst (snd (record_context box content_props env0)),
       Some 0)"
    by (simp add: prod_eq_iff record_context_def prepare_context_def new_picture_def
        safe_unref_def example_defs)
  have hc: "have_contents content_props" "\<not> is_root content_props"
    by (simp_all add: content_props_def)
  have sz: "trunc_int (fw (l_size box)) = 100" "trunc_int (fh (l_size box)) = 50"
    by (simp_all add: box_def)
  show ?thesis
    using prepare_context_stable_after_recording [OF hc rc,
        where ops = "[DrawRect \<lparr>r_left = 0, r_top = 0, r_right = 100, r_bottom = 50\<rparr> 255]"]
    by (simp only: sz)
qed

theorem prepare_context_unrecorded_realloc_witness:
  "recording (fst (prepare_context False box (fst (prepare_context True box content_props env0))
                     (fst (snd (prepare_context True box content_props env0))))) \<noteq>
   recording (fst (prepare_context True box content_props env0))"
proof -
  let ?pc1 = "prepare_context True box content_props env0"
  let ?pc2 = "prepare_context False box (fst ?pc1) (fst (snd ?pc1))"
  have hc: "have_contents content_props" "\<not> is_root content_props"
    by (simp_all add: content_props_def)
  have ok: "store_ok ({#} + mset_opt (recording content_props)) env0"
    by (simp add: store_ok_def example_defs)
  have w: "trunc_int (fw (l_size box)) \<noteq> 0" by (simp add: box_def)
  have pc1: "?pc1 = (fst ?pc1, fst (snd ?pc1), snd (snd ?pc1))" by simp
  have pc2: "?pc2 = (fst ?pc2, fst (snd ?pc2), snd (snd ?pc2))" by simp
  show ?thesis by (rule prepare_context_unrecorded_realloc [OF hc ok w pc1 pc2])
qed

theorem canvas_opacity_byte_range_witness:
  "0 \<le> canvas_opacity (1 / 2) (box\<lparr>l_opacity := 1 / 2\<rparr>) \<and>
   canvas_opacity (1 / 2) (box\<lparr>l_opacity := 1 / 2\<rparr>) \<le> 255 \<and>
   uint (word_of_int (canvas_opacity (1 / 2) (box\<lparr>l_opacity := 1 / 2\<rparr>)) :: alpha) =
     canvas_opacity (1 / 2) (box\<lparr>l_opacity := 1 / 2\<rparr>)"
  by (rule canvas_opacity_byte_range) simp_all

theorem layer_matrix_ignores_small_scale_witness:
  "layer_matrix (box\<lparr>l_scale := \<lparr>px = 1 / 2, py = 1 / 4\<rparr>\<rparr>) = translate_m 10 20"
proof -
  have "layer_matrix (box\<lparr>l_scale := \<lparr>px = 1 / 2, py = 1 / 4\<rparr>\<rparr>) =
      translate_m (px (l_translation (box\<lparr>l_scale := \<lparr>px = 1 / 2, py = 1 / 4\<rparr>\<rparr>)) +
                   px (l_position (box\<lparr>l_scale := \<lparr>px = 1 / 2, py = 1 / 4\<rparr>\<rparr>)))
                  (py (l_translation (box\<lparr>l_scale := \<lparr>px = 1 / 2, py = 1 / 4\<rparr>\<rparr>)) +
                   py (l_position (box\<lparr>l_scale := \<lparr>px = 1 / 2, py = 1 / 4\<rparr>\<rparr>)))"
    by (rule layer_matrix_ignores_small_scale) (simp_all add: box_def default_sklayer_def)
  then show ?thesis by (simp add: box_def default_sklayer_def)
qed

theorem layer_matrix_scales_about_centre_witness:
  "\<not> l_do_rotation (box\<lparr>l_scale := \<lparr>px = 2, py = 1\<rparr>\<rparr>) \<and>
   (1 < px (l_scale (box\<lparr>l_scale := \<lparr>px = 2, py = 1\<rparr>\<rparr>)) \<or>
    1 < py (l_scale (box\<lparr>l_scale := \<lparr>px = 2, py = 1\<rparr>\<rparr>))) \<and>
   map_point (layer_matrix (box\<lparr>l_scale := \<lparr>px = 2, py = 1\<rparr>\<rparr>)) \<lparr>px = 0, py = 0\<rparr> =
     \<lparr>px = -40, py = 20\<rparr>"
proof -
  let ?b = "box\<lparr>l_scale := \<lparr>px = 2, py = 1\<rparr>\<rparr>"
  have h: "\<not> l_do_rotation ?b" "1 < px (l_scale ?b) \<or> 1 < py (l_scale ?b)"
    by (simp_all add: box_def default_sklayer_def)
  show ?thesis
    using h layer_matrix_scales_about_centre [OF h, of "\<lparr>px = 0, py = 0\<rparr>"]
    by (simp add: box_def default_sklayer_def)
qed

theorem layer_matrix_rotates_about_anchor_witness:
  "l_do_rotation (box\<lparr>l_do_rotation := True, l_angle := 90, l_anchor := \<lparr>px = 1 / 2, py = 1 / 2\<rparr>\<rparr>) \<and>
   px (l_scale (box\<lparr>l_do_rotation := True, l_angle := 90, l_anchor := \<lparr>px = 1 / 2, py = 1 / 2\<rparr>\<rparr>)) \<le> 1 \<and>
   py (l_scale (box\<lparr>l_do_rotation := True, l_angle := 90, l_anchor := \<lparr>px = 1 / 2, py = 1 / 2\<rparr>\<rparr>)) \<le> 1 \<and>
   map_point (layer_matrix (box\<lparr>l_do_rotation := True, l_angle := 90,
       l_anchor := \<lparr>px = 1 / 2, py = 1 / 2\<rparr>\<rparr>)) \<lparr>px = 0, py = 0\<rparr> = \<lparr>px = 85, py = -5\<rparr>"
proof -
  let ?b = "box\<lparr>l_do_rotation := True, l_angle := 90, l_anchor := \<lparr>px = 1 / 2, py = 1 / 2\<rparr>\<rparr>"
  have h: "l_do_rotation ?b" "px (l_scale ?b) \<le> 1" "py (l_scale ?b) \<le> 1"
    by (simp_all add: box_def default_sklayer_def)
  have r: "90 * pi / 180 = pi / (2::real)" by simp
  show ?thesis
    using h layer_matrix_rotates_about_anchor [OF h, of "\<lparr>px = 0, py = 0\<rparr>"]
    by (simp add: box_def default_sklayer_def Let_def r)
qed

theorem odf_filter_restore_witness:
  "odf_restore (fst (odf_filter (opacity_filter_new 63) \<lparr>paint_alpha = 200\<rparr>))
     (fst (snd (odf_filter (opacity_filter_new 63) \<lparr>paint_alpha = 200\<rparr>))) = \<lparr>paint_alpha = 200\<rparr>"
  by (rule odf_filter_restore [where b = True]) (simp add: odf_filter_def Let_def prod_eq_iff)

theorem add_animation_keeps_existing_witness:
  "map_of (animations (add_animation running_anim content_props)) =
     (if anim_name running_anim \<in> dom (map_of (animations content_props))
      then map_of (animations content_props)
      else (map_of (animations content_props))(anim_name running_anim \<mapsto> running_anim)) \<and>
   anims_wf (animations (add_animation running_anim content_props))"
  by (rule add_animation_keeps_existing) (simp add: content_props_def)

theorem copy_shares_recordings_witness:
  "store_ok ({#} + refs picture_tree) env1 \<and>
   refs (fst (copy_layer picture_tree env1)) = refs picture_tree \<and>
   store_ok ({#} + refs picture_tree + refs (fst (copy_layer picture_tree env1)))
     (snd (copy_layer picture_tree env1))"
proof -
  have h: "store_ok ({#} + refs picture_tree) env1" by (simp add: refs_picture_trees env1_store_ok)
  show ?thesis using h copy_shares_recordings [OF h] by blast
qed

theorem destroy_releases_witness:
  "store_ok ({#} + refs picture_tree) env1 \<and>
   store_ok {#} (destroy_layer picture_tree env1) \<and>
   instances (destroy_layer picture_tree env1) = instances env1 - int (node_count picture_tree)"
proof -
  have h: "store_ok ({#} + refs picture_tree) env1" by (simp add: refs_picture_trees env1_store_ok)
  show ?thesis using h destroy_releases [OF h] by blast
qed

theorem copy_then_destroy_balanced_witness:
  "store_ok ({#} + refs picture_tree) env1 \<and>
   instances (destroy_layer (fst (copy_layer picture_tree env1))
      (snd (copy_layer picture_tree env1))) = instances env1 \<and>
   store_ok ({#} + refs picture_tree)
     (destroy_layer (fst (copy_layer picture_tree env1)) (snd (copy_layer picture_tree env1)))"
proof -
  have h: "store_ok ({#} + refs picture_tree) env1" by (simp add: refs_picture_trees env1_store_ok)
  show ?thesis using h copy_then_destroy_balanced [OF h] by blast
qed

theorem evaluate_animations_idle_witness:
  "evaluate_animations 0 (Layer box content_props []) env0 =
     (Layer box content_props [], env0\<lparr>nb_anims := 0\<rparr>, False)"
  by (rule evaluate_animations_idle) (simp add: content_props_def)

theorem evaluate_animations_live_witness:
  "snd (snd (evaluate_animations 0
      (Layer box (content_props\<lparr>animations := [(''fade'', running_anim)]\<rparr>) []) env0))"
  by (rule evaluate_animations_live) (simp add: running_anim_def)

end
